theory Spec2Isabelle
  imports Complex_Main "HOL-Library.Word"
begin

section \<open>JavaScript numbers\<close>

text \<open>
  Every amount in \<^verbatim>\<open>transfer.ts\<close> is a JavaScript \<^verbatim>\<open>number\<close>: an IEEE 754 binary64
  value. A finite value is a rational; the result of an arithmetic operation is the exact
  rational result rounded to the nearest binary64 value, ties to even, with gradual
  underflow below \<open>2 ^ - 1022\<close> and overflow to an infinity from \<open>2 ^ 1024\<close>. The negative
  zero is identified with zero: the program never divides by a computed value, and \<open><\<close>,
  truthiness and string interpolation do not tell the two zeros apart.
\<close>

datatype number = Finite rat | PosInfinity | NegInfinity | NaN

definition pow2 :: "int \<Rightarrow> rat" where
  "pow2 e = (if 0 \<le> e then 2 ^ nat e else 1 / 2 ^ nat (- e))"

text \<open>The number of binary digits of a positive integer; the flag says that nothing is left.\<close>

function bit_length_aux :: "bool \<Rightarrow> int \<Rightarrow> int" where
  "bit_length_aux True n = 0"
| "bit_length_aux False n = 1 + bit_length_aux (n div 2 \<le> 0) (n div 2)"
  by pat_completeness auto
termination
  by (relation "measure (\<lambda>(b, n). if b then 0 else Suc (nat n))") auto

definition bit_length :: "int \<Rightarrow> int" where
  "bit_length n = bit_length_aux (n \<le> 0) n"

text \<open>For \<open>0 < q\<close>, the exponent \<open>e\<close> with \<open>2 ^ e \<le> q < 2 ^ (e + 1)\<close>.\<close>

definition ilog2 :: "rat \<Rightarrow> int" where
  "ilog2 q = (let (a, b) = quotient_of q;
                  d = bit_length a - bit_length b
              in if pow2 d \<le> q then d else d - 1)"

definition round_half_even :: "rat \<Rightarrow> int" where
  "round_half_even m = (let f = \<lfloor>m\<rfloor>; r = m - of_int f in
     if r < 1 / 2 then f else if 1 / 2 < r then f + 1 else if even f then f else f + 1)"

text \<open>
  Rounding of an exact result to binary64: 53 significant bits, the unit in the last place
  never below \<open>2 ^ - 1074\<close>. The rounded magnitude reaches \<open>2 ^ 1024\<close> exactly when the
  exponent is at least 1024, or is 1023 and the significand rounds up to \<open>2 ^ 53\<close>.
\<close>

definition to_double :: "rat \<Rightarrow> number" where
  "to_double q = (if q = 0 then Finite 0 else
     let a = \<bar>q\<bar>; e = ilog2 a; p = max (e - 52) (- 1074);
         n = round_half_even (a / pow2 p)
     in if 1024 \<le> e \<or> (e = 1023 \<and> n = 9007199254740992)
        then (if 0 < q then PosInfinity else NegInfinity)
        else Finite (if 0 < q then of_int n * pow2 p else - (of_int n * pow2 p)))"

definition signed_infinity :: "bool \<Rightarrow> number" where
  "signed_infinity positive = (if positive then PosInfinity else NegInfinity)"

text \<open>The operators \<^verbatim>\<open>*\<close>, \<^verbatim>\<open>/\<close>, \<^verbatim>\<open>+\<close> and \<^verbatim>\<open><\<close> on numbers, and the truthiness of a number.\<close>

fun number_multiply :: "number \<Rightarrow> number \<Rightarrow> number" where
  "number_multiply NaN y = NaN"
| "number_multiply x NaN = NaN"
| "number_multiply (Finite x) (Finite y) = to_double (x * y)"
| "number_multiply (Finite x) PosInfinity = (if x = 0 then NaN else signed_infinity (0 < x))"
| "number_multiply (Finite x) NegInfinity = (if x = 0 then NaN else signed_infinity (x < 0))"
| "number_multiply PosInfinity (Finite y) = (if y = 0 then NaN else signed_infinity (0 < y))"
| "number_multiply NegInfinity (Finite y) = (if y = 0 then NaN else signed_infinity (y < 0))"
| "number_multiply PosInfinity PosInfinity = PosInfinity"
| "number_multiply PosInfinity NegInfinity = NegInfinity"
| "number_multiply NegInfinity PosInfinity = NegInfinity"
| "number_multiply NegInfinity NegInfinity = PosInfinity"

fun number_divide :: "number \<Rightarrow> number \<Rightarrow> number" where
  "number_divide NaN y = NaN"
| "number_divide x NaN = NaN"
| "number_divide (Finite x) (Finite y) =
     (if y = 0 then (if x = 0 then NaN else signed_infinity (0 < x)) else to_double (x / y))"
| "number_divide (Finite x) PosInfinity = Finite 0"
| "number_divide (Finite x) NegInfinity = Finite 0"
| "number_divide PosInfinity (Finite y) = signed_infinity (0 \<le> y)"
| "number_divide NegInfinity (Finite y) = signed_infinity (y < 0)"
| "number_divide PosInfinity PosInfinity = NaN"
| "number_divide PosInfinity NegInfinity = NaN"
| "number_divide NegInfinity PosInfinity = NaN"
| "number_divide NegInfinity NegInfinity = NaN"

fun number_add :: "number \<Rightarrow> number \<Rightarrow> number" where
  "number_add NaN y = NaN"
| "number_add x NaN = NaN"
| "number_add (Finite x) (Finite y) = to_double (x + y)"
| "number_add (Finite x) PosInfinity = PosInfinity"
| "number_add (Finite x) NegInfinity = NegInfinity"
| "number_add PosInfinity (Finite y) = PosInfinity"
| "number_add NegInfinity (Finite y) = NegInfinity"
| "number_add PosInfinity PosInfinity = PosInfinity"
| "number_add PosInfinity NegInfinity = NaN"
| "number_add NegInfinity PosInfinity = NaN"
| "number_add NegInfinity NegInfinity = NegInfinity"

fun number_lessThan :: "number \<Rightarrow> number \<Rightarrow> bool" where
  "number_lessThan NaN y = False"
| "number_lessThan x NaN = False"
| "number_lessThan (Finite x) (Finite y) = (x < y)"
| "number_lessThan (Finite x) PosInfinity = True"
| "number_lessThan (Finite x) NegInfinity = False"
| "number_lessThan PosInfinity y = False"
| "number_lessThan NegInfinity (Finite y) = True"
| "number_lessThan NegInfinity PosInfinity = True"
| "number_lessThan NegInfinity NegInfinity = False"

fun ToBoolean :: "number \<Rightarrow> bool" where
  "ToBoolean (Finite x) = (x \<noteq> 0)"
| "ToBoolean NaN = False"
| "ToBoolean PosInfinity = True"
| "ToBoolean NegInfinity = True"

text \<open>\<^verbatim>\<open>LAMPORTS_PER_SOL\<close> of \<^verbatim>\<open>@solana/web3.js\<close>.\<close>

definition LAMPORTS_PER_SOL :: number where
  "LAMPORTS_PER_SOL = Finite 1000000000"

section \<open>Keys, accounts and transactions\<close>

text \<open>
  A \<^verbatim>\<open>PublicKey\<close> is identified by its base-58 text, which is what the program reads
  from it (\<^verbatim>\<open>toBase58()\<close>). A \<^verbatim>\<open>Uint8Array\<close> is a list of bytes.
\<close>

type_synonym byte = "8 word"

datatype PublicKey = PublicKey (toBase58: string)

record Keypair =
  publicKey :: PublicKey
  secretKey :: "byte list"

record AccountInfo =
  owner :: PublicKey
  account_lamports :: number

record TransactionInstruction =
  fromPubkey :: PublicKey
  toPubkey :: PublicKey
  transfer_lamports :: number

record Transaction =
  instructions :: "TransactionInstruction list"
  recentBlockhash :: "string option"
  feePayer :: "PublicKey option"

datatype Message = Message Transaction

record ConfirmOptions =
  commitment :: string
  maxRetries :: nat

text \<open>\<^verbatim>\<open>new Transaction().add(instruction)\<close> and \<^verbatim>\<open>transaction.compileMessage()\<close>.\<close>

definition new_Transaction :: Transaction where
  "new_Transaction = \<lparr>instructions = [], recentBlockhash = None, feePayer = None\<rparr>"

definition add_instruction :: "Transaction \<Rightarrow> TransactionInstruction \<Rightarrow> Transaction" where
  "add_instruction t i = t\<lparr>instructions := instructions t @ [i]\<rparr>"

definition compileMessage :: "Transaction \<Rightarrow> Message" where
  "compileMessage t = Message t"

section \<open>Errors\<close>

text \<open>
  One constructor for each \<^verbatim>\<open>throw\<close> of the program, holding the values its message
  interpolates, and two for what the libraries and the network raise.
  \<^item> \<open>InvalidSenderAccount o\<close>: \<^verbatim>\<open>transfer.ts\<close> line 42, "Invalid sender account. This account
    is owned by program o and cannot be used to pay transaction fees ...".
  \<^item> \<open>InsufficientBalance h n a f\<close>: line 63, "Insufficient balance. You have h SOL, but need
    n SOL (a SOL + f SOL fee)", with \<open>h = senderBalance / LAMPORTS_PER_SOL\<close>,
    \<open>n = totalRequired / LAMPORTS_PER_SOL\<close>, \<open>a = amountSOL\<close>, \<open>f = estimatedFee\<close>.
  \<^item> \<open>TransactionFailed m\<close>: line 106, with the whole message \<open>m\<close>.
  \<^item> \<open>InvalidPrivateKeyLength n\<close>: wallet constructor, "Invalid private key length: expected
    64 bytes, got n".
  \<^item> \<open>InvalidPrivateKeyFormatInner\<close>: wallet constructor, "Invalid private key format".
  \<^item> \<open>InvalidPrivateKeyFormat\<close>: wallet constructor, "Invalid private key format. Please
    provide a base58 encoded private key or array of 64 numbers."
  \<^item> \<open>NotSystemAccount o\<close>: \<^verbatim>\<open>validateForTransactions\<close>, "This account is owned by program o
    and cannot sign transactions ...".
  \<^item> \<open>SendTransactionError m sg\<close>: the library's error class of that name, with its message
    and the signature of the transaction it is about.
  \<^item> \<open>LibraryError m\<close>: any other exception of a library or of the network.
\<close>

datatype error =
    InvalidSenderAccount string
  | InsufficientBalance number number number number
  | TransactionFailed string
  | InvalidPrivateKeyLength nat
  | InvalidPrivateKeyFormatInner
  | InvalidPrivateKeyFormat
  | NotSystemAccount string
  | SendTransactionError string string
  | LibraryError string

section \<open>The libraries and the network\<close>

text \<open>What \<^verbatim>\<open>JSON.parse\<close> returns.\<close>

datatype json =
    JNull
  | JBool bool
  | JNumber number
  | JString string
  | JArray "json list"
  | JObject "(string \<times> json) list"

text \<open>
  The functions of \<^verbatim>\<open>bs58\<close>, of the language and of \<^verbatim>\<open>@solana/web3.js\<close> that the program
  calls and that are not part of the repository are parameters. \<open>ToNumber_other\<close> is the
  language's conversion to a number of a string, an array or an object.
\<close>

record Lib =
  bs58_decode :: "string \<Rightarrow> error + byte list"
  bs58_encode :: "byte list \<Rightarrow> string"
  JSON_parse :: "string \<Rightarrow> error + json"
  ToNumber_other :: "json \<Rightarrow> number"
  Keypair_fromSecretKey :: "byte list \<Rightarrow> error + Keypair"
  SystemProgram_transfer :: "PublicKey \<Rightarrow> PublicKey \<Rightarrow> number \<Rightarrow> error + TransactionInstruction"

text \<open>
  The \<^verbatim>\<open>Connection\<close>: each query reads the state \<open>'s\<close> of the network and may change it,
  and either returns or raises. \<open>getLogs\<close> is \<^verbatim>\<open>error.getLogs(connection)\<close> of the library's
  \<^verbatim>\<open>SendTransactionError\<close>; its result may be undefined.
\<close>

record 's Connection =
  getAccountInfo :: "PublicKey \<Rightarrow> 's \<Rightarrow> (error + AccountInfo option) \<times> 's"
  getBalance :: "PublicKey \<Rightarrow> 's \<Rightarrow> (error + number) \<times> 's"
  getLatestBlockhash :: "'s \<Rightarrow> (error + string) \<times> 's"
  getFeeForMessage :: "Message \<Rightarrow> string \<Rightarrow> 's \<Rightarrow> (error + number option) \<times> 's"
  sendAndConfirmTransaction ::
    "Transaction \<Rightarrow> Keypair list \<Rightarrow> ConfirmOptions \<Rightarrow> 's \<Rightarrow> (error + string) \<times> 's"
  getLogs :: "error \<Rightarrow> 's \<Rightarrow> (error + string list option) \<times> 's"

text \<open>The calls made on the connection, in the order they are made.\<close>

datatype event =
    GetAccountInfo PublicKey
  | GetBalance PublicKey
  | GetLatestBlockhash
  | GetFeeForMessage Message
  | SendAndConfirmTransaction Transaction "Keypair list" ConfirmOptions
  | GetLogs error

text \<open>
  An asynchronous function of the program: from the state of the network and the calls made
  so far to a result or a raised error, the new state and the calls made.
\<close>

type_synonym ('s, 'a) io = "'s \<times> event list \<Rightarrow> (error + 'a) \<times> ('s \<times> event list)"

definition return_io :: "'a \<Rightarrow> ('s, 'a) io" where
  "return_io x = (\<lambda>w. (Inr x, w))"

definition throw_io :: "error \<Rightarrow> ('s, 'a) io" where
  "throw_io e = (\<lambda>w. (Inl e, w))"

definition bind_io :: "('s, 'a) io \<Rightarrow> ('a \<Rightarrow> ('s, 'b) io) \<Rightarrow> ('s, 'b) io" where
  "bind_io m f = (\<lambda>w. case m w of (Inl e, w') \<Rightarrow> (Inl e, w') | (Inr x, w') \<Rightarrow> f x w')"

definition catch_io :: "('s, 'a) io \<Rightarrow> (error \<Rightarrow> ('s, 'a) io) \<Rightarrow> ('s, 'a) io" where
  "catch_io m h = (\<lambda>w. case m w of (Inl e, w') \<Rightarrow> h e w' | (Inr x, w') \<Rightarrow> (Inr x, w'))"

definition lift_io :: "error + 'a \<Rightarrow> ('s, 'a) io" where
  "lift_io r = (\<lambda>w. (r, w))"

definition await :: "event \<Rightarrow> ('s \<Rightarrow> (error + 'a) \<times> 's) \<Rightarrow> ('s, 'a) io" where
  "await ev q = (\<lambda>(s, calls). case q s of (r, s') \<Rightarrow> (r, (s', calls @ [ev])))"

section \<open>\<^verbatim>\<open>TransferManager\<close>\<close>

definition SYSTEM_PROGRAM_ID :: string where
  "SYSTEM_PROGRAM_ID = ''11111111111111111111111111111111''"

text \<open>\<^verbatim>\<open>Array.prototype.join\<close> on strings.\<close>

fun join :: "string \<Rightarrow> string list \<Rightarrow> string" where
  "join sep [] = []"
| "join sep [x] = x"
| "join sep (x # y # ys) = x @ sep @ join sep (y # ys)"

definition newline :: string where
  "newline = [CHR 0x0A]"

text \<open>
  \<^verbatim>\<open>estimateTransactionFee\<close> (lines 138 to 162): the transfer instruction, the latest
  blockhash, the fee of the compiled message at commitment "confirmed", and
  \<^verbatim>\<open>fee.value ? fee.value / LAMPORTS_PER_SOL : 0\<close>.
\<close>

definition estimateTransactionFee ::
  "Lib \<Rightarrow> 's Connection \<Rightarrow> PublicKey \<Rightarrow> PublicKey \<Rightarrow> number \<Rightarrow> ('s, number) io" where
  "estimateTransactionFee lib conn fromPublicKey toPublicKey amountSOL =
     (let lamports = number_multiply amountSOL LAMPORTS_PER_SOL in
      bind_io (lift_io (SystemProgram_transfer lib fromPublicKey toPublicKey lamports))
        (\<lambda>transferInstruction.
      let transaction = add_instruction new_Transaction transferInstruction in
      bind_io (await GetLatestBlockhash (getLatestBlockhash conn)) (\<lambda>blockhash.
      let transaction =
            transaction\<lparr>recentBlockhash := Some blockhash, feePayer := Some fromPublicKey\<rparr> in
      bind_io (await (GetFeeForMessage (compileMessage transaction))
                 (getFeeForMessage conn (compileMessage transaction) ''confirmed''))
        (\<lambda>fee_value.
      return_io (case fee_value of
                   None \<Rightarrow> Finite 0
                 | Some v \<Rightarrow> if ToBoolean v then number_divide v LAMPORTS_PER_SOL
                              else Finite 0)))))"

text \<open>
  Lines 38 to 45 of \<^verbatim>\<open>sendSOL\<close>: the error raised when the sender's account exists and its
  owner is not the system program.
\<close>

definition invalid_sender :: "AccountInfo option \<Rightarrow> error option" where
  "invalid_sender senderAccountInfo =
     (case senderAccountInfo of
        None \<Rightarrow> None
      | Some info \<Rightarrow>
          if toBase58 (owner info) \<noteq> SYSTEM_PROGRAM_ID
          then Some (InvalidSenderAccount (toBase58 (owner info)))
          else None)"

text \<open>
  Lines 102 to 113: the handler of the \<^verbatim>\<open>try\<close> around \<^verbatim>\<open>sendAndConfirmTransaction\<close>. The
  message is "Transaction failed: ", the error's message, a line break, "Logs: " and
  \<^verbatim>\<open>logs?.join("\n") || "No logs available"\<close>.
\<close>

definition logs_text :: "string list option \<Rightarrow> string" where
  "logs_text logs =
     (case logs of
        None \<Rightarrow> ''No logs available''
      | Some ls \<Rightarrow> if join newline ls = [] then ''No logs available'' else join newline ls)"

definition on_send_error :: "'s Connection \<Rightarrow> error \<Rightarrow> ('s, string) io" where
  "on_send_error conn err =
     (case err of
        SendTransactionError msg sg \<Rightarrow>
          bind_io (await (GetLogs err) (getLogs conn err)) (\<lambda>logs.
          throw_io (TransactionFailed
            (''Transaction failed: '' @ msg @ newline @ ''Logs: '' @ logs_text logs)))
      | _ \<Rightarrow> throw_io err)"

definition confirm_options :: ConfirmOptions where
  "confirm_options = \<lparr>commitment = ''confirmed'', maxRetries = 3\<rparr>"

text \<open>\<^verbatim>\<open>sendSOL\<close> (lines 22 to 114). What it prints on the console is left out.\<close>

definition sendSOL ::
  "Lib \<Rightarrow> 's Connection \<Rightarrow> Keypair \<Rightarrow> PublicKey \<Rightarrow> number \<Rightarrow> ('s, string) io" where
  "sendSOL lib conn fromKeypair toPublicKey amountSOL =
     (let lamports = number_multiply amountSOL LAMPORTS_PER_SOL in
      bind_io (await (GetAccountInfo (publicKey fromKeypair))
                 (getAccountInfo conn (publicKey fromKeypair))) (\<lambda>senderAccountInfo.
      case invalid_sender senderAccountInfo of
        Some err \<Rightarrow> throw_io err
      | None \<Rightarrow>
      bind_io (await (GetBalance (publicKey fromKeypair))
                 (getBalance conn (publicKey fromKeypair))) (\<lambda>senderBalance.
      bind_io (estimateTransactionFee lib conn (publicKey fromKeypair) toPublicKey amountSOL)
        (\<lambda>estimatedFee.
      let totalRequired =
            number_add lamports (number_multiply estimatedFee LAMPORTS_PER_SOL) in
      if number_lessThan senderBalance totalRequired
      then throw_io (InsufficientBalance
                       (number_divide senderBalance LAMPORTS_PER_SOL)
                       (number_divide totalRequired LAMPORTS_PER_SOL)
                       amountSOL estimatedFee)
      else
      bind_io (lift_io (SystemProgram_transfer lib (publicKey fromKeypair) toPublicKey lamports))
        (\<lambda>transferInstruction.
      let transaction = add_instruction new_Transaction transferInstruction in
      bind_io (await GetLatestBlockhash (getLatestBlockhash conn)) (\<lambda>blockhash.
      let transaction =
            transaction\<lparr>recentBlockhash := Some blockhash,
                         feePayer := Some (publicKey fromKeypair)\<rparr> in
      catch_io
        (await (SendAndConfirmTransaction transaction [fromKeypair] confirm_options)
           (sendAndConfirmTransaction conn transaction [fromKeypair] confirm_options))
        (on_send_error conn)))))))"

text \<open>\<^verbatim>\<open>checkAddressExists\<close> (lines 167 to 174).\<close>

definition checkAddressExists :: "'s Connection \<Rightarrow> PublicKey \<Rightarrow> ('s, bool) io" where
  "checkAddressExists conn pk =
     catch_io
       (bind_io (await (GetAccountInfo pk) (getAccountInfo conn pk)) (\<lambda>accountInfo.
        return_io (accountInfo \<noteq> None)))
       (\<lambda>err. return_io False)"

section \<open>\<^verbatim>\<open>WalletManager\<close>\<close>

record WalletManager =
  keypair :: Keypair

text \<open>
  \<^verbatim>\<open>new Uint8Array(array)\<close>: each element is converted to a number, then to a byte: not a
  number and the infinities give 0, any other value is truncated towards zero and taken
  modulo 256.
\<close>

definition ToNumber :: "Lib \<Rightarrow> json \<Rightarrow> number" where
  "ToNumber lib v =
     (case v of
        JNumber n \<Rightarrow> n
      | JNull \<Rightarrow> Finite 0
      | JBool b \<Rightarrow> Finite (if b then 1 else 0)
      | _ \<Rightarrow> ToNumber_other lib v)"

definition trunc_rat :: "rat \<Rightarrow> int" where
  "trunc_rat q = (if 0 \<le> q then \<lfloor>q\<rfloor> else \<lceil>q\<rceil>)"

definition ToUint8 :: "number \<Rightarrow> byte" where
  "ToUint8 n = (case n of Finite q \<Rightarrow> word_of_int (trunc_rat q) | _ \<Rightarrow> 0)"

definition new_Uint8Array :: "Lib \<Rightarrow> json list \<Rightarrow> byte list" where
  "new_Uint8Array lib xs = map (\<lambda>v. ToUint8 (ToNumber lib v)) xs"

text \<open>The body of the outer \<^verbatim>\<open>try\<close> of the constructor (lines 226 to 234 of the file).\<close>

definition key_from_base58 :: "Lib \<Rightarrow> string \<Rightarrow> error + Keypair" where
  "key_from_base58 lib privateKey =
     (case bs58_decode lib privateKey of
        Inl err \<Rightarrow> Inl err
      | Inr decoded \<Rightarrow>
          if length decoded \<noteq> 64 then Inl (InvalidPrivateKeyLength (length decoded))
          else Keypair_fromSecretKey lib decoded)"

text \<open>The body of the inner \<^verbatim>\<open>try\<close> (lines 236 to 248).\<close>

definition key_from_json :: "Lib \<Rightarrow> string \<Rightarrow> error + Keypair" where
  "key_from_json lib privateKey =
     (case JSON_parse lib privateKey of
        Inl err \<Rightarrow> Inl err
      | Inr (JArray parsed) \<Rightarrow>
          if length parsed \<noteq> 64 then Inl (InvalidPrivateKeyLength (length parsed))
          else Keypair_fromSecretKey lib (new_Uint8Array lib parsed)
      | Inr _ \<Rightarrow> Inl InvalidPrivateKeyFormatInner)"

text \<open>The constructor: whatever the inner \<^verbatim>\<open>try\<close> raises is replaced by one error.\<close>

definition WalletManager_constructor :: "Lib \<Rightarrow> string \<Rightarrow> error + WalletManager" where
  "WalletManager_constructor lib privateKey =
     (case key_from_base58 lib privateKey of
        Inr kp \<Rightarrow> Inr \<lparr>keypair = kp\<rparr>
      | Inl err \<Rightarrow>
          (case key_from_json lib privateKey of
             Inr kp \<Rightarrow> Inr \<lparr>keypair = kp\<rparr>
           | Inl err' \<Rightarrow> Inl InvalidPrivateKeyFormat))"

definition getKeypair :: "WalletManager \<Rightarrow> Keypair" where
  "getKeypair w = keypair w"

definition getPublicKey :: "WalletManager \<Rightarrow> string" where
  "getPublicKey w = toBase58 (publicKey (keypair w))"

definition getPrivateKey :: "Lib \<Rightarrow> WalletManager \<Rightarrow> string" where
  "getPrivateKey lib w = bs58_encode lib (secretKey (keypair w))"

text \<open>\<^verbatim>\<open>createNew\<close>, given the key pair that \<^verbatim>\<open>Keypair.generate()\<close> returned.\<close>

definition createNew :: "Lib \<Rightarrow> Keypair \<Rightarrow> error + WalletManager" where
  "createNew lib generated =
     WalletManager_constructor lib (bs58_encode lib (secretKey generated))"

definition isValidPrivateKey :: "Lib \<Rightarrow> string \<Rightarrow> bool" where
  "isValidPrivateKey lib privateKey =
     (case WalletManager_constructor lib privateKey of Inr w \<Rightarrow> True | Inl err \<Rightarrow> False)"

text \<open>\<^verbatim>\<open>validateForTransactions\<close> (lines 306 to 327 of the file).\<close>

definition validateForTransactions :: "'s Connection \<Rightarrow> WalletManager \<Rightarrow> ('s, unit) io" where
  "validateForTransactions conn w =
     bind_io (await (GetAccountInfo (publicKey (keypair w)))
                (getAccountInfo conn (publicKey (keypair w)))) (\<lambda>accountInfo.
     case accountInfo of
       Some info \<Rightarrow>
         if toBase58 (owner info) \<noteq> SYSTEM_PROGRAM_ID
         then throw_io (NotSystemAccount (toBase58 (owner info)))
         else return_io ()
     | None \<Rightarrow> return_io ())"

section \<open>A reference model of the libraries, for the examples\<close>

text \<open>
  Base-58 as \<^verbatim>\<open>bs58\<close> computes it: each leading \<^verbatim>\<open>1\<close> is a leading zero byte, the rest is
  a number written in base 58 with the alphabet below; decoding raises on any other
  character.
\<close>

definition BASE58_ALPHABET :: string where
  "BASE58_ALPHABET = ''123456789ABCDEFGHJKLMNPQRSTUVWXYZabcdefghijkmnopqrstuvwxyz''"

fun index_in :: "char \<Rightarrow> string \<Rightarrow> int option" where
  "index_in c [] = None"
| "index_in c (x # xs) = (if c = x then Some 0 else map_option (\<lambda>i. i + 1) (index_in c xs))"

fun base58_digits :: "string \<Rightarrow> int list option" where
  "base58_digits [] = Some []"
| "base58_digits (c # cs) =
     (case index_in c BASE58_ALPHABET of
        None \<Rightarrow> None
      | Some d \<Rightarrow> map_option ((#) d) (base58_digits cs))"

definition digits_value :: "int \<Rightarrow> int list \<Rightarrow> int" where
  "digits_value base ds = foldl (\<lambda>acc d. acc * base + d) 0 ds"

text \<open>
  The digits of a number in a base, most significant first; the flag says that nothing is
  left (or that the base is not one).
\<close>

function digits_aux :: "int \<Rightarrow> bool \<Rightarrow> int \<Rightarrow> int list \<Rightarrow> int list" where
  "digits_aux b True n acc = acc"
| "digits_aux b False n acc = digits_aux b (n div b \<le> 0 \<or> b \<le> 1) (n div b) (n mod b # acc)"
  by pat_completeness auto
termination
proof (relation "measure (\<lambda>(b, stop, n, acc). if stop then 0 else Suc (nat n))")
  show "wf (measure (\<lambda>(b, stop, n, acc). if stop then 0 else Suc (nat n)))"
    by simp
next
  fix b n :: int and acc :: "int list"
  show "((b, (n div b \<le> 0 \<or> b \<le> 1), n div b, n mod b # acc), (b, False, n, acc))
        \<in> measure (\<lambda>(b, stop, n, acc). if stop then 0 else Suc (nat n))"
  proof (cases "n div b \<le> 0 \<or> b \<le> 1")
    case True
    then show ?thesis by simp
  next
    case False
    then have b: "1 < b" and q: "0 < n div b" by auto
    from q b have n: "0 < n"
      by (simp add: pos_imp_zdiv_pos_iff)
    from n b have "n div b < n" by (rule int_div_less_self)
    with q False show ?thesis by simp
  qed
qed

definition digits :: "int \<Rightarrow> int \<Rightarrow> int list" where
  "digits b n = digits_aux b (n \<le> 0 \<or> b \<le> 1) n []"

text \<open>Digits in range, the first one not zero.\<close>

definition well_formed :: "int \<Rightarrow> int list \<Rightarrow> bool" where
  "well_formed b ds =
     (list_all (\<lambda>d. 0 \<le> d \<and> d < b) ds \<and> (case ds of [] \<Rightarrow> True | d # r \<Rightarrow> d \<noteq> 0))"

definition bs58_decode_ref :: "string \<Rightarrow> error + byte list" where
  "bs58_decode_ref s =
     (case base58_digits s of
        None \<Rightarrow> Inl (LibraryError ''Non-base58 character'')
      | Some ds \<Rightarrow>
          Inr (replicate (length (takeWhile (\<lambda>d. d = 0) ds)) 0 @
               map word_of_int (digits 256 (digits_value 58 ds))))"

definition bs58_encode_ref :: "byte list \<Rightarrow> string" where
  "bs58_encode_ref bs =
     replicate (length (takeWhile (\<lambda>b. b = 0) bs)) (CHR ''1'') @
     map (\<lambda>d. BASE58_ALPHABET ! nat d) (digits 58 (digits_value 256 (map uint bs)))"

text \<open>
  A valid secret key: the seed and the public key of the first test vector of RFC 8032
  (Ed25519), with the base-58 text of its public key.
\<close>

definition rfc8032_secret_key :: "byte list" where
  "rfc8032_secret_key =
    [157, 97, 177, 157, 239, 253, 90, 96, 186, 132, 74, 244, 146, 236, 44, 196, 68, 73,
     197, 105, 123, 50, 105, 25, 112, 59, 172, 3, 28, 174, 127, 96, 215, 90, 152, 1,
     130, 177, 10, 183, 213, 75, 254, 211, 201, 100, 7, 58, 14, 225, 114, 243, 218,
     166, 35, 37, 175, 2, 26, 104, 247, 7, 81, 26]"

definition rfc8032_keypair :: Keypair where
  "rfc8032_keypair =
     \<lparr>publicKey = PublicKey ''FVen3X669xLzsi6N2V91DoiyzHzg1uAgqiT8jZ9nS96Z'',
      secretKey = rfc8032_secret_key\<rparr>"

text \<open>The key as a JSON array of its bytes, and the same array with one half added to each.\<close>

definition rfc8032_array_text :: string where
  "rfc8032_array_text =
     ''[157,97,177,157,239,253,90,96,186,132,74,244,146,236,44,196,68,73,197,'' @
     ''105,123,50,105,25,112,59,172,3,28,174,127,96,215,90,152,1,130,177,10,1'' @
     ''83,213,75,254,211,201,100,7,58,14,225,114,243,218,166,35,37,175,2,26,1'' @
     ''04,247,7,81,26]''"

definition rfc8032_halves_text :: string where
  "rfc8032_halves_text =
     ''[157.5,97.5,177.5,157.5,239.5,253.5,90.5,96.5,186.5,132.5,74.5,244.5,1'' @
     ''46.5,236.5,44.5,196.5,68.5,73.5,197.5,105.5,123.5,50.5,105.5,25.5,112.'' @
     ''5,59.5,172.5,3.5,28.5,174.5,127.5,96.5,215.5,90.5,152.5,1.5,130.5,177.'' @
     ''5,10.5,183.5,213.5,75.5,254.5,211.5,201.5,100.5,7.5,58.5,14.5,225.5,11'' @
     ''4.5,243.5,218.5,166.5,35.5,37.5,175.5,2.5,26.5,104.5,247.5,7.5,81.5,26'' @
     ''.5]''"

text \<open>
  The sample library: base-58 as above; \<^verbatim>\<open>JSON.parse\<close> on the two texts above, raising on
  any other text; \<^verbatim>\<open>Keypair.fromSecretKey\<close> accepting the key above and no other;
  \<^verbatim>\<open>SystemProgram.transfer\<close> raising unless the amount is an integer, as its conversion
  to a big integer does.
\<close>

definition sample_JSON_parse :: "string \<Rightarrow> error + json" where
  "sample_JSON_parse s =
     (if s = rfc8032_array_text
      then Inr (JArray (map (\<lambda>b. JNumber (Finite (of_int (uint b)))) rfc8032_secret_key))
      else if s = rfc8032_halves_text
      then Inr (JArray (map (\<lambda>b. JNumber (Finite (of_int (uint b) + 1 / 2)))
                          rfc8032_secret_key))
      else Inl (LibraryError ''SyntaxError''))"

definition sample_transfer ::
  "PublicKey \<Rightarrow> PublicKey \<Rightarrow> number \<Rightarrow> error + TransactionInstruction" where
  "sample_transfer f t l =
     (case l of
        Finite q \<Rightarrow>
          if of_int \<lfloor>q\<rfloor> = q
          then Inr \<lparr>fromPubkey = f, toPubkey = t, transfer_lamports = l\<rparr>
          else Inl (LibraryError ''RangeError'')
      | _ \<Rightarrow> Inl (LibraryError ''RangeError''))"

definition sample_lib :: Lib where
  "sample_lib =
     \<lparr>bs58_decode = bs58_decode_ref,
      bs58_encode = bs58_encode_ref,
      JSON_parse = sample_JSON_parse,
      ToNumber_other = (\<lambda>v. NaN),
      Keypair_fromSecretKey =
        (\<lambda>bs. if bs = rfc8032_secret_key then Inr rfc8032_keypair
              else Inl (LibraryError ''provided secretKey is invalid'')),
      SystemProgram_transfer = sample_transfer\<rparr>"

text \<open>
  The sample network: its state counts the calls made. The account and the outcome of the
  submission are fixed; the balance may depend on the time of the query.
\<close>

definition sample_connection ::
  "error + AccountInfo option \<Rightarrow> (nat \<Rightarrow> number) \<Rightarrow> number option \<Rightarrow> error + string \<Rightarrow>
   string list option \<Rightarrow> nat Connection" where
  "sample_connection info balance_at fee outcome logs =
     \<lparr>getAccountInfo = (\<lambda>pk t. (info, Suc t)),
      getBalance = (\<lambda>pk t. (Inr (balance_at t), Suc t)),
      getLatestBlockhash = (\<lambda>t. (Inr ''blockhash'', Suc t)),
      getFeeForMessage = (\<lambda>m c t. (Inr fee, Suc t)),
      sendAndConfirmTransaction = (\<lambda>tx signers opts t. (outcome, Suc t)),
      getLogs = (\<lambda>e t. (Inr logs, Suc t))\<rparr>"

text \<open>
  The same network when the logs of a refused transaction cannot be fetched: \<^verbatim>\<open>getLogs\<close>
  raises, as the library's does when it finds no log messages for the signature.
\<close>

definition logs_not_found :: "nat Connection \<Rightarrow> nat Connection" where
  "logs_not_found conn =
     conn\<lparr>getLogs := (\<lambda>e t. (Inl (LibraryError ''Log messages not found''), Suc t))\<rparr>"

definition recipient :: PublicKey where
  "recipient = PublicKey ''4vJ9JU1bJJE96FWSJKvHsmmFADCg4gpZQff4P3bkLKi''"

text \<open>The transaction that \<^verbatim>\<open>sendSOL\<close> builds from the sample key for the sample recipient.\<close>

definition sample_transaction :: "number \<Rightarrow> Transaction" where
  "sample_transaction l =
     \<lparr>instructions =
        [\<lparr>fromPubkey = publicKey rfc8032_keypair, toPubkey = recipient,
          transfer_lamports = l\<rparr>],
      recentBlockhash = Some ''blockhash'',
      feePayer = Some (publicKey rfc8032_keypair)\<rparr>"

text \<open>The calls that submit a transaction.\<close>

definition is_submission :: "event \<Rightarrow> bool" where
  "is_submission ev =
     (case ev of SendAndConfirmTransaction tx signers opts \<Rightarrow> True | _ \<Rightarrow> False)"

text \<open>A JSON value that is an integer.\<close>

definition json_is_integer :: "json \<Rightarrow> bool" where
  "json_is_integer v = (case v of JNumber (Finite q) \<Rightarrow> of_int \<lfloor>q\<rfloor> = q | _ \<Rightarrow> False)"

text \<open>The numbers that the message of an error shows.\<close>

definition interpolated_numbers :: "error \<Rightarrow> number list" where
  "interpolated_numbers err =
     (case err of
        InsufficientBalance h n a f \<Rightarrow> [h, n, a, f]
      | InvalidPrivateKeyLength n \<Rightarrow> [Finite (of_nat n)]
      | _ \<Rightarrow> [])"

section \<open>Lemmas\<close>

lemmas io_defs = bind_io_def await_def lift_io_def throw_io_def return_io_def catch_io_def

text \<open>The fee estimate submits nothing.\<close>

lemma estimate_calls:
  assumes "estimateTransactionFee lib conn f t a (s, calls) = (r, (s', calls'))"
  shows "filter is_submission calls' = filter is_submission calls"
  using assms
  by (auto simp: estimateTransactionFee_def io_defs Let_def is_submission_def
      split: sum.splits prod.splits)

text \<open>
  The handler of the submission: it raises the error with the message and the logs when
  \<^verbatim>\<open>getLogs\<close> returns, and the error of \<^verbatim>\<open>getLogs\<close> when that raises.
\<close>

lemma on_send_error_logs:
  assumes "getLogs conn (SendTransactionError msg sg) s = (Inr logs, s')"
  shows "on_send_error conn (SendTransactionError msg sg) (s, calls) =
           (Inl (TransactionFailed
                   (''Transaction failed: '' @ msg @ newline @ ''Logs: '' @ logs_text logs)),
            (s', calls @ [GetLogs (SendTransactionError msg sg)]))"
  using assms by (simp add: on_send_error_def io_defs)

lemma on_send_error_no_logs:
  assumes "getLogs conn (SendTransactionError msg sg) s = (Inl e, s')"
  shows "on_send_error conn (SendTransactionError msg sg) (s, calls) =
           (Inl e, (s', calls @ [GetLogs (SendTransactionError msg sg)]))"
  using assms by (simp add: on_send_error_def io_defs)

subsection \<open>Rounding to binary64 leaves a binary64 value as it is\<close>

lemma pow2_powi: "pow2 e = 2 powi e"
  unfolding pow2_def power_int_def by (simp add: power_one_over inverse_eq_divide)

lemma pow2_pos: "0 < pow2 e"
  by (simp add: pow2_powi)

lemma pow2_add: "pow2 (a + b) = pow2 a * pow2 b"
  by (simp add: pow2_powi power_int_add)

lemma pow2_less: "a < b \<Longrightarrow> pow2 a < pow2 b"
  by (simp add: pow2_powi power_int_strict_increasing)

lemma pow2_le: "a \<le> b \<Longrightarrow> pow2 a \<le> pow2 b"
  by (simp add: pow2_powi power_int_increasing)

lemma pow2_nat: "0 \<le> k \<Longrightarrow> pow2 k = of_int (2 ^ nat k)"
  by (simp add: pow2_def)


lemma bit_length_aux_spec:
  "stop = (n \<le> 0) \<Longrightarrow> 0 \<le> n \<Longrightarrow>
   0 \<le> bit_length_aux stop n \<and> n < 2 ^ nat (bit_length_aux stop n) \<and>
   (0 < n \<longrightarrow> 2 ^ (nat (bit_length_aux stop n) - 1) \<le> n)"
proof (induction stop n rule: bit_length_aux.induct)
  case (1 n)
  then show ?case by simp
next
  case (2 n)
  from "2.prems" have n: "0 < n" by simp
  define m where "m = n div 2"
  define k where "k = bit_length_aux (m \<le> 0) m"
  have m0: "0 \<le> m" using n by (simp add: m_def)
  from "2.IH" [OF refl, folded m_def, OF m0]
  have k0: "0 \<le> k" and up: "m < 2 ^ nat k" and low: "0 < m \<longrightarrow> 2 ^ (nat k - 1) \<le> m"
    by (simp_all add: k_def)
  have n2: "2 * m \<le> n" "n \<le> 2 * m + 1"
    by (simp_all add: m_def)
  have res: "bit_length_aux False n = 1 + k"
    by (simp add: k_def m_def)
  have nat_res: "nat (1 + k) = Suc (nat k)"
    using k0 by simp
  have upper: "n < 2 ^ nat (1 + k)"
    using up n2 by (simp add: nat_res)
  have lower: "2 ^ (nat (1 + k) - 1) \<le> n"
  proof (cases "0 < m")
    case True
    with low have l: "2 ^ (nat k - 1) \<le> m" by simp
    from True up have "nat k \<noteq> 0"
      by (cases "nat k") auto
    then obtain j where j: "nat k = Suc j" by (cases "nat k") auto
    with l n2 show ?thesis by (simp add: nat_res)
  next
    case False
    with m0 have "m = 0" by simp
    then have "k = 0" by (simp add: k_def)
    with n show ?thesis by simp
  qed
  from k0 upper lower show ?case by (simp add: k_def m_def)
qed

lemma bit_length_spec:
  assumes "0 < n"
  shows "1 \<le> bit_length n" "n < 2 ^ nat (bit_length n)" "2 ^ (nat (bit_length n) - 1) \<le> n"
proof -
  from bit_length_aux_spec [of "n \<le> 0" n] assms
  have a: "0 \<le> bit_length n" "n < 2 ^ nat (bit_length n)" "2 ^ (nat (bit_length n) - 1) \<le> n"
    by (simp_all add: bit_length_def)
  show "n < 2 ^ nat (bit_length n)" "2 ^ (nat (bit_length n) - 1) \<le> n" by fact+
  show "1 \<le> bit_length n"
  proof (rule ccontr)
    assume "\<not> 1 \<le> bit_length n"
    with a(1) have "bit_length n = 0" by simp
    with a(2) assms show False by simp
  qed
qed

lemma ilog2_spec:
  assumes q: "0 < q"
  shows "pow2 (ilog2 q) \<le> q" and "q < pow2 (ilog2 q + 1)"
proof -
  obtain a b where ab: "quotient_of q = (a, b)" by (cases "quotient_of q")
  from quotient_of_denom_pos [OF ab] have b: "0 < b" .
  from quotient_of_div [OF ab] have qd: "q = of_int a / of_int b" .
  from q b have a: "0 < a" by (simp add: qd zero_less_divide_iff)
  define la where "la = bit_length a"
  define lb where "lb = bit_length b"
  define d where "d = la - lb"
  from bit_length_spec [OF a]
  have la: "1 \<le> la" "a < 2 ^ nat la" "2 ^ (nat la - 1) \<le> a"
    by (simp_all add: la_def)
  from bit_length_spec [OF b]
  have lb: "1 \<le> lb" "b < 2 ^ nat lb" "2 ^ (nat lb - 1) \<le> b"
    by (simp_all add: lb_def)
  have nat1: "nat la - 1 = nat (la - 1)" "nat lb - 1 = nat (lb - 1)"
    using la(1) lb(1) by simp_all
  have A_up: "(of_int a :: rat) < pow2 la"
  proof -
    have "(of_int a :: rat) < of_int (2 ^ nat la)" using la(2) by (simp only: of_int_less_iff)
    then show ?thesis using la(1) by (simp add: pow2_nat)
  qed
  have A_low: "pow2 (la - 1) \<le> (of_int a :: rat)"
  proof -
    have "(of_int (2 ^ nat (la - 1)) :: rat) \<le> of_int a"
      using la(3) by (simp only: of_int_le_iff nat1 [symmetric])
    then show ?thesis using la(1) by (simp add: pow2_nat)
  qed
  have B_up: "(of_int b :: rat) < pow2 lb"
  proof -
    have "(of_int b :: rat) < of_int (2 ^ nat lb)" using lb(2) by (simp only: of_int_less_iff)
    then show ?thesis using lb(1) by (simp add: pow2_nat)
  qed
  have B_low: "pow2 (lb - 1) \<le> (of_int b :: rat)"
  proof -
    have "(of_int (2 ^ nat (lb - 1)) :: rat) \<le> of_int b"
      using lb(3) by (simp only: of_int_le_iff nat1 [symmetric])
    then show ?thesis using lb(1) by (simp add: pow2_nat)
  qed
  have Bpos: "0 < (of_int b :: rat)" using b by simp
  have upper: "q < pow2 (d + 1)"
  proof -
    have "of_int a < pow2 (d + 1) * pow2 (lb - 1)"
      using A_up by (simp add: pow2_add [symmetric] d_def)
    also have "\<dots> \<le> pow2 (d + 1) * of_int b"
      using B_low pow2_pos [of "d + 1"] by simp
    finally show ?thesis using Bpos by (simp add: qd pos_divide_less_eq)
  qed
  have lower: "pow2 (d - 1) \<le> q"
  proof -
    have "pow2 (d - 1) * of_int b \<le> pow2 (d - 1) * pow2 lb"
      using B_up pow2_pos [of "d - 1"] by simp
    also have "\<dots> = pow2 (la - 1)"
      by (simp add: pow2_add [symmetric] d_def)
    also have "\<dots> \<le> of_int a" by (rule A_low)
    finally show ?thesis using Bpos by (simp add: qd pos_le_divide_eq)
  qed
  have val: "ilog2 q = (if pow2 d \<le> q then d else d - 1)"
    by (simp add: ilog2_def ab Let_def d_def la_def lb_def)
  show "pow2 (ilog2 q) \<le> q"
    using lower by (simp add: val)
  show "q < pow2 (ilog2 q + 1)"
    using upper by (auto simp: val not_le)
qed





lemma pow2_numeral: "pow2 52 = 4503599627370496" "pow2 53 = 9007199254740992"
  by (simp_all add: pow2_def)





subsection \<open>The balance test on whole lamports\<close>

text \<open>
  Rounding to binary64 moves a value in the normal range by at most one part in
  \<open>2 ^ 53\<close>, and a value below \<open>2 ^ 53\<close> by at most one half. So a fee below \<open>2 ^ 50\<close>
  lamports, divided by \<^verbatim>\<open>LAMPORTS_PER_SOL\<close> and multiplied by it again, comes back within
  three eighths of a lamport, and the sum with a whole number of lamports, when the exact
  sum is below \<open>2 ^ 53\<close>, is more than any whole number below the exact sum.
\<close>

lemma round_half_even_error: "\<bar>of_int (round_half_even m) - m\<bar> \<le> 1 / 2"
proof -
  have f: "of_int \<lfloor>m\<rfloor> \<le> m" "m < of_int \<lfloor>m\<rfloor> + 1"
    by linarith+
  show ?thesis
    using f by (auto simp: round_half_even_def Let_def abs_le_iff)
qed

lemma to_double_error:
  assumes lo: "pow2 (- 1022) \<le> x" and hi: "x < pow2 1023"
  shows "\<exists>r. to_double x = Finite r \<and> \<bar>r - x\<bar> \<le> x / 9007199254740992 \<and>
             (x < 9007199254740992 \<longrightarrow> \<bar>r - x\<bar> \<le> 1 / 2)"
proof -
  have x: "0 < x" using lo pow2_pos [of "- 1022"] by simp
  define e where "e = ilog2 x"
  define p where "p = e - 52"
  define n where "n = round_half_even (x / pow2 p)"
  note s = ilog2_spec [OF x, folded e_def]
  have e_lo: "- 1022 \<le> e"
  proof (rule ccontr)
    assume "\<not> - 1022 \<le> e"
    then have "pow2 (e + 1) \<le> pow2 (- 1022)" by (intro pow2_le) simp
    with s(2) lo show False by simp
  qed
  have e_hi: "e < 1023"
  proof (rule ccontr)
    assume "\<not> e < 1023"
    then have "pow2 1023 \<le> pow2 e" by (intro pow2_le) simp
    with s(1) hi show False by simp
  qed
  have mx: "max (e - 52) (- 1074) = p" using e_lo by (simp add: p_def)
  have val: "to_double x = Finite (of_int n * pow2 p)"
    using x e_hi mx
    by (simp add: to_double_def Let_def e_def [symmetric] n_def)
  have pp: "0 < pow2 p" by (rule pow2_pos)
  have "of_int n * pow2 p - x = (of_int n - x / pow2 p) * pow2 p"
    using pp by (simp add: field_simps)
  then have "\<bar>of_int n * pow2 p - x\<bar> = \<bar>of_int n - x / pow2 p\<bar> * pow2 p"
    using pp by (simp add: abs_mult)
  also have "\<dots> \<le> (1 / 2) * pow2 p"
    using round_half_even_error [of "x / pow2 p"] pp
    by (intro mult_right_mono) (simp_all add: n_def)
  finally have err: "\<bar>of_int n * pow2 p - x\<bar> \<le> pow2 p / 2" by simp
  have "e = 52 + p" by (simp add: p_def)
  then have "pow2 e = pow2 52 * pow2 p" by (simp only: pow2_add)
  with s(1) have "4503599627370496 * pow2 p \<le> x" by (simp add: pow2_numeral)
  then have rel: "pow2 p / 2 \<le> x / 9007199254740992" by simp
  have near: "\<bar>of_int n * pow2 p - x\<bar> \<le> 1 / 2" if "x < 9007199254740992"
  proof -
    have "e < 53"
    proof (rule ccontr)
      assume "\<not> e < 53"
      then have "pow2 53 \<le> pow2 e" by (intro pow2_le) simp
      with s(1) that show False by (simp add: pow2_numeral)
    qed
    then have "pow2 p \<le> pow2 0" by (intro pow2_le) (simp add: p_def)
    then have "pow2 p \<le> 1" by (simp add: pow2_def)
    with err show ?thesis by simp
  qed
  from err rel have "\<bar>of_int n * pow2 p - x\<bar> \<le> x / 9007199254740992" by simp
  with val near show ?thesis by (intro exI [of _ "of_int n * pow2 p"]) simp
qed

lemma pow2_small: "pow2 (- 1022) \<le> 1 / 1073741824"
proof -
  have "pow2 (- 1022) \<le> pow2 (- 30)" by (rule pow2_le) simp
  then show ?thesis by (simp add: pow2_def)
qed

lemma pow2_large: "4503599627370496 \<le> pow2 1023"
proof -
  have "pow2 52 \<le> pow2 1023" by (rule pow2_le) simp
  then show ?thesis by (simp add: pow2_numeral)
qed

lemma fee_round_trip:
  assumes f0: "0 \<le> f" and f50: "f < 2 ^ 50"
  shows "\<exists>g. number_multiply (number_divide (Finite (of_int f)) LAMPORTS_PER_SOL)
                LAMPORTS_PER_SOL = Finite g \<and>
             0 \<le> g \<and> of_int f - 3 / 8 \<le> g \<and> g \<le> of_int f + 3 / 8 \<and>
             g \<le> 4 * of_int f"
proof (cases "f = 0")
  case True
  then show ?thesis by (simp add: LAMPORTS_PER_SOL_def to_double_def)
next
  case False
  define F :: rat where "F = of_int f"
  from False f0 have "1 \<le> f" by simp
  then have F1: "1 \<le> F" unfolding F_def by (simp only: of_int_1_le_iff)
  from f50 have "(of_int f :: rat) < of_int (2 ^ 50)" by (simp only: of_int_less_iff)
  then have F50: "F < 1125899906842624" by (simp add: F_def)
  define x where "x = F / 1000000000"
  have "pow2 (- 1022) \<le> x" "x < pow2 1023"
    using F1 F50 pow2_small pow2_large by (simp_all add: x_def)
  from to_double_error [OF this]
  obtain u where u: "to_double x = Finite u" and ue: "\<bar>u - x\<bar> \<le> x / 9007199254740992"
    by blast
  define y where "y = u * 1000000000"
  have yb: "F / 2 \<le> y" "y \<le> 2 * F" "F - F / 9007199254740992 \<le> y"
    "y \<le> F + F / 9007199254740992"
    unfolding y_def using ue F1 unfolding x_def by linarith+
  have "pow2 (- 1022) \<le> y" "y < pow2 1023"
    using yb F1 F50 pow2_small pow2_large by simp_all
  from to_double_error [OF this]
  obtain g where g: "to_double y = Finite g" and ge: "\<bar>g - y\<bar> \<le> y / 9007199254740992" by blast
  have res: "number_multiply (number_divide (Finite (of_int f)) LAMPORTS_PER_SOL)
               LAMPORTS_PER_SOL = Finite g"
    using u g by (simp add: LAMPORTS_PER_SOL_def F_def [symmetric] x_def [symmetric] y_def [symmetric])
  have "0 \<le> g" "F - 3 / 8 \<le> g" "g \<le> F + 3 / 8" "g \<le> 4 * F"
    using ge yb F1 F50 by linarith+
  with res show ?thesis by (simp add: F_def)
qed

lemma short_balance_test:
  assumes l0: "0 \<le> l" and f0: "0 \<le> f" and f50: "f < 2 ^ 50"
      and safe: "l + f < 2 ^ 53" and short: "b < l + f"
  shows "number_lessThan (Finite (of_int b))
           (number_add (Finite (of_int l))
              (number_multiply (number_divide (Finite (of_int f)) LAMPORTS_PER_SOL)
                 LAMPORTS_PER_SOL))"
proof -
  from fee_round_trip [OF f0 f50]
  obtain g where g: "number_multiply (number_divide (Finite (of_int f)) LAMPORTS_PER_SOL)
                       LAMPORTS_PER_SOL = Finite g"
    and g0: "0 \<le> g" and gl: "of_int f - 3 / 8 \<le> g" and gu: "g \<le> of_int f + 3 / 8"
    and g4: "g \<le> 4 * of_int f"
    by blast
  define L F B :: rat where "L = of_int l" and "F = of_int f" and "B = of_int b"
  have L0: "0 \<le> L" using l0 by (simp add: L_def)
  from safe have "l + f + 1 \<le> 2 ^ 53" by simp
  then have "(of_int (l + f + 1) :: rat) \<le> of_int (2 ^ 53)" by (simp only: of_int_le_iff)
  then have LF: "L + F + 1 \<le> 9007199254740992" by (simp add: L_def F_def)
  from short have "b + 1 \<le> l + f" by simp
  then have "(of_int (b + 1) :: rat) \<le> of_int (l + f)" by (simp only: of_int_le_iff)
  then have BL: "B + 1 \<le> L + F" by (simp add: L_def F_def B_def)
  define x where "x = L + g"
  have sum: "number_add (Finite (of_int l)) (Finite g) = to_double x"
    by (simp add: x_def L_def)
  show ?thesis
  proof (cases "x = 0")
    case True
    with L0 g0 have "L = 0" "g = 0" by (simp_all add: x_def)
    with gl BL have "B < 0" by (simp add: F_def)
    moreover have "number_add (Finite (of_int l)) (Finite g) = Finite 0"
      unfolding sum True by (simp add: to_double_def)
    ultimately show ?thesis
      unfolding g by (simp add: B_def)
  next
    case False
    have x58: "5 / 8 \<le> x"
    proof (cases "l = 0")
      case True
      with False have "g \<noteq> 0" by (simp add: x_def L_def)
      with g4 g0 have "0 < F" by (simp add: F_def)
      then have "0 < f" by (simp add: F_def)
      then have "1 \<le> f" by simp
      then have "1 \<le> F" unfolding F_def by (simp only: of_int_1_le_iff)
      with gl L0 show ?thesis by (simp add: x_def F_def)
    next
      case False
      with l0 have "1 \<le> l" by simp
      then have "1 \<le> L" unfolding L_def by (simp only: of_int_1_le_iff)
      with g0 show ?thesis by (simp add: x_def)
    qed
    have xu: "x < 9007199254740992"
      using LF gu by (simp add: x_def F_def)
    have "pow2 53 \<le> pow2 1023" by (rule pow2_le) simp
    with xu have "x < pow2 1023" by (simp add: pow2_numeral)
    moreover have "pow2 (- 1022) \<le> x"
      using x58 pow2_small by simp
    ultimately obtain r where r: "to_double x = Finite r"
      and re: "x < 9007199254740992 \<longrightarrow> \<bar>r - x\<bar> \<le> 1 / 2"
      using to_double_error [of x] by blast
    from re xu have "x - r \<le> 1 / 2" by linarith
    moreover have "B + 5 / 8 \<le> x" using gl BL by (simp add: x_def F_def)
    ultimately have "B < r" by linarith
    then show ?thesis
      unfolding g sum r by (simp add: B_def)
  qed
qed

lemma number_divide_zero: "number_divide (Finite 0) LAMPORTS_PER_SOL = Finite 0"
  by (simp add: LAMPORTS_PER_SOL_def to_double_def)

lemma fee_in_SOL:
  "(if ToBoolean (Finite q) then number_divide (Finite q) LAMPORTS_PER_SOL else Finite 0) =
   number_divide (Finite q) LAMPORTS_PER_SOL"
  using number_divide_zero by simp

subsection \<open>The reference base-58 decodes what it encodes\<close>

lemma digits_value_snoc: "digits_value b (ds @ [d]) = digits_value b ds * b + d"
  by (simp add: digits_value_def)

lemma well_formed_snoc:
  "well_formed b (ds @ [d]) \<Longrightarrow> well_formed b ds \<and> 0 \<le> d \<and> d < b \<and> (ds = [] \<longrightarrow> d \<noteq> 0)"
  by (cases ds) (auto simp: well_formed_def)

lemma well_formed_value_pos:
  "1 < b \<Longrightarrow> well_formed b ds \<Longrightarrow> ds \<noteq> [] \<Longrightarrow> 0 < digits_value b ds"
proof (induction ds rule: rev_induct)
  case Nil
  then show ?case by simp
next
  case (snoc d ds)
  from well_formed_snoc [OF snoc.prems(2)]
  have wf: "well_formed b ds" and d: "0 \<le> d" "d < b" and first: "ds = [] \<longrightarrow> d \<noteq> 0"
    by auto
  show ?case
  proof (cases "ds = []")
    case True
    with d first show ?thesis by (simp add: digits_value_def)
  next
    case False
    with snoc.IH [OF snoc.prems(1) wf] have "0 < digits_value b ds" by simp
    with snoc.prems(1) d have "0 < digits_value b ds * b + d"
      by (simp add: add_pos_nonneg)
    then show ?thesis by (simp add: digits_value_snoc)
  qed
qed

lemma digits_aux_of_value:
  "1 < b \<Longrightarrow> well_formed b ds \<Longrightarrow>
   digits_aux b (digits_value b ds \<le> 0 \<or> b \<le> 1) (digits_value b ds) acc = ds @ acc"
proof (induction ds arbitrary: acc rule: rev_induct)
  case Nil
  then show ?case by (simp add: digits_value_def)
next
  case (snoc d ds)
  from well_formed_snoc [OF snoc.prems(2)]
  have wf: "well_formed b ds" and d: "0 \<le> d" "d < b"
    by auto
  have pos: "0 < digits_value b (ds @ [d])"
    using well_formed_value_pos [OF snoc.prems(1) snoc.prems(2)] by simp
  have q: "digits_value b (ds @ [d]) div b = digits_value b ds"
    using d snoc.prems(1) by (simp add: digits_value_snoc)
  have r: "digits_value b (ds @ [d]) mod b = d"
    using d snoc.prems(1) by (simp add: digits_value_snoc)
  have "digits_aux b (digits_value b (ds @ [d]) \<le> 0 \<or> b \<le> 1) (digits_value b (ds @ [d])) acc
        = digits_aux b False (digits_value b (ds @ [d])) acc"
    using pos snoc.prems(1) by simp
  also have "\<dots> = digits_aux b (digits_value b ds \<le> 0 \<or> b \<le> 1) (digits_value b ds) (d # acc)"
    by (simp add: q r)
  also have "\<dots> = ds @ d # acc"
    using snoc.IH [OF snoc.prems(1) wf] .
  finally show ?case by simp
qed

lemma digits_aux_spec:
  "1 < b \<Longrightarrow> 0 \<le> n \<Longrightarrow> stop = (n \<le> 0 \<or> b \<le> 1) \<Longrightarrow>
   \<exists>ds. digits_aux b stop n acc = ds @ acc \<and> digits_value b ds = n \<and> well_formed b ds"
proof (induction b stop n acc rule: digits_aux.induct)
  case (1 b n acc)
  then have "n = 0" by simp
  then show ?case by (simp add: digits_value_def well_formed_def)
next
  case (2 b n acc)
  from "2.prems" have n: "0 < n" by auto
  have q0: "0 \<le> n div b" using n "2.prems"(1) by (simp add: pos_imp_zdiv_nonneg_iff)
  from "2.IH" [OF "2.prems"(1) q0 refl]
  obtain ds where res: "digits_aux b (n div b \<le> 0 \<or> b \<le> 1) (n div b) (n mod b # acc) = ds @ n mod b # acc"
    and val: "digits_value b ds = n div b" and wf: "well_formed b ds"
    by auto
  have m: "0 \<le> n mod b" "n mod b < b" using "2.prems"(1) by simp_all
  have first: "ds = [] \<Longrightarrow> n mod b \<noteq> 0"
  proof -
    assume "ds = []"
    with val have "n div b = 0" by (simp add: digits_value_def)
    then have "n mod b = n" by (metis add.left_neutral mult_zero_right mult_div_mod_eq)
    with n show ?thesis by simp
  qed
  have wf': "well_formed b (ds @ [n mod b])"
    using wf m first by (cases ds) (auto simp: well_formed_def)
  have "digits_value b (ds @ [n mod b]) = n"
    by (simp add: digits_value_snoc val)
  with res wf' show ?case
    by (intro exI [of _ "ds @ [n mod b]"]) simp
qed

lemma index_in_nth:
  "distinct xs \<Longrightarrow> i < length xs \<Longrightarrow> index_in (xs ! i) xs = Some (int i)"
proof (induction xs arbitrary: i)
  case Nil
  then show ?case by simp
next
  case (Cons x xs)
  show ?case
  proof (cases i)
    case 0
    then show ?thesis by simp
  next
    case (Suc j)
    with Cons.prems have j: "j < length xs" and d: "distinct xs" and nx: "xs ! j \<noteq> x"
      by auto
    from Cons.IH [OF d j] nx Suc show ?thesis by simp
  qed
qed

lemma alphabet_distinct: "distinct BASE58_ALPHABET"
  by (simp add: BASE58_ALPHABET_def)

lemma alphabet_length: "length BASE58_ALPHABET = 58"
  by (simp add: BASE58_ALPHABET_def)

lemma index_in_alphabet:
  assumes "0 \<le> d" "d < 58"
  shows "index_in (BASE58_ALPHABET ! nat d) BASE58_ALPHABET = Some d"
proof -
  from assms have "nat d < length BASE58_ALPHABET" by (simp add: alphabet_length)
  from index_in_nth [OF alphabet_distinct this] assms show ?thesis by simp
qed

lemma base58_digits_map:
  "list_all (\<lambda>d. 0 \<le> d \<and> d < 58) ds \<Longrightarrow>
   base58_digits (map (\<lambda>d. BASE58_ALPHABET ! nat d) ds) = Some ds"
  by (induction ds) (simp_all add: index_in_alphabet)

lemma base58_digits_ones:
  "base58_digits (replicate z (CHR ''1'') @ s) = map_option ((@) (replicate z 0)) (base58_digits s)"
proof (induction z)
  case 0
  then show ?case by (simp add: option.map_ident)
next
  case (Suc z)
  have "index_in (CHR ''1'') BASE58_ALPHABET = Some 0"
    by (simp add: BASE58_ALPHABET_def)
  with Suc show ?case by (simp add: option.map_comp comp_def)
qed

lemma digits_value_zeros: "digits_value b (replicate z 0 @ ds) = digits_value b ds"
  by (induction z) (simp_all add: digits_value_def)

lemma digits_value_nonneg:
  "0 \<le> b \<Longrightarrow> list_all (\<lambda>d. 0 \<le> d) ds \<Longrightarrow> 0 \<le> digits_value b ds"
  by (induction ds rule: rev_induct) (simp_all add: digits_value_snoc digits_value_def)

lemma takeWhile_zeros:
  "(case ds of [] \<Rightarrow> True | d # r \<Rightarrow> d \<noteq> 0) \<Longrightarrow>
   takeWhile (\<lambda>d. d = 0) (replicate z 0 @ ds) = replicate z 0"
  by (induction z) (auto split: list.splits)

lemma leading_zeros_split:
  "bs = replicate (length (takeWhile (\<lambda>b. b = 0) bs)) (0::byte) @ dropWhile (\<lambda>b. b = 0) bs"
proof -
  have "takeWhile (\<lambda>b. b = 0) bs = replicate (length (takeWhile (\<lambda>b. b = 0) bs)) (0::byte)"
    by (induction bs) simp_all
  then show ?thesis
    by (metis takeWhile_dropWhile_id)
qed

lemma well_formed_bytes:
  "well_formed 256 (map uint (dropWhile (\<lambda>b. b = 0) (bs :: byte list)))"
proof -
  have range: "list_all (\<lambda>d. 0 \<le> d \<and> d < 256) (map uint (xs :: byte list))" for xs
    by (induction xs) (simp_all add: uint_bounded [where 'a = 8, simplified])
  have first: "(case map uint (dropWhile (\<lambda>b. b = 0) bs) of [] \<Rightarrow> True | d # r \<Rightarrow> d \<noteq> 0)"
    by (induction bs) (simp_all add: uint_0_iff)
  from range first show ?thesis by (simp add: well_formed_def)
qed

lemma bs58_ref_round_trip: "bs58_decode_ref (bs58_encode_ref bs) = Inr bs"
proof -
  define z where "z = length (takeWhile (\<lambda>b. b = 0) bs)"
  define rest where "rest = dropWhile (\<lambda>b. b = 0) bs"
  define n where "n = digits_value 256 (map uint bs)"
  have bs: "bs = replicate z 0 @ rest"
    unfolding z_def rest_def by (rule leading_zeros_split)
  have wf_rest: "well_formed 256 (map uint rest)"
    unfolding rest_def by (rule well_formed_bytes)
  have n_rest: "n = digits_value 256 (map uint rest)"
    unfolding n_def by (subst bs) (simp add: digits_value_zeros)
  have n0: "0 \<le> n"
    unfolding n_rest using wf_rest
    by (intro digits_value_nonneg) (simp_all add: well_formed_def list_all_iff)
  from digits_aux_spec [of 58 n "n \<le> 0 \<or> (58::int) \<le> 1" "[]"] n0
  obtain ds where ds: "digits 58 n = ds" and val: "digits_value 58 ds = n" and wf: "well_formed 58 ds"
    by (auto simp: digits_def)
  have enc: "bs58_encode_ref bs = replicate z (CHR ''1'') @ map (\<lambda>d. BASE58_ALPHABET ! nat d) ds"
    by (simp add: bs58_encode_ref_def z_def n_def [symmetric] ds)
  have dig: "base58_digits (bs58_encode_ref bs) = Some (replicate z 0 @ ds)"
    using wf by (simp add: enc base58_digits_ones base58_digits_map well_formed_def)
  have lead: "takeWhile (\<lambda>d. d = 0) (replicate z 0 @ ds) = replicate z 0"
    using wf by (intro takeWhile_zeros) (simp add: well_formed_def)
  have bytes: "digits 256 n = map uint rest"
    using digits_aux_of_value [of 256 "map uint rest" "[]"] wf_rest
    by (simp add: digits_def n_rest)
  have "bs58_decode_ref (bs58_encode_ref bs) =
        Inr (replicate z 0 @ map word_of_int (digits 256 n))"
    by (simp add: bs58_decode_ref_def dig lead digits_value_zeros val)
  also have "\<dots> = Inr (replicate z 0 @ rest)"
    by (simp add: bytes comp_def)
  finally show ?thesis using bs by simp
qed

text \<open>An array of the bytes of a key, as numbers, converts back to the key.\<close>

lemma trunc_rat_of_int: "trunc_rat (of_int k) = k"
  unfolding trunc_rat_def by (simp only: floor_of_int ceiling_of_int if_cancel)

lemma ToUint8_byte: "ToUint8 (Finite (of_int (uint b))) = b"
  unfolding ToUint8_def by (simp only: number.case trunc_rat_of_int word_of_int_uint)

lemma new_Uint8Array_bytes:
  "new_Uint8Array lib (map (\<lambda>b. JNumber (Finite (of_int (uint b)))) sk) = sk"
proof -
  have "ToUint8 (ToNumber lib (JNumber (Finite (of_int (uint b))))) = b" for b
    unfolding ToNumber_def by (simp only: json.case ToUint8_byte)
  then show ?thesis
    unfolding new_Uint8Array_def map_map comp_def by (simp only: map_ident)
qed

section \<open>The sender's account\<close>

text \<open>
  Claim C4. When the sender's account exists and its owner is not the system program,
  \<^verbatim>\<open>sendSOL\<close> raises its invalid-sender error after the account query alone: no balance
  query, no fee estimate, no submission. \<^verbatim>\<open>validateForTransactions\<close> raises its own error
  for such an account.
\<close>

theorem sendSOL_non_system_owner:
  assumes "getAccountInfo conn (publicKey kp) s = (Inr (Some info), s')"
      and "toBase58 (owner info) \<noteq> SYSTEM_PROGRAM_ID"
  shows "sendSOL lib conn kp dest amountSOL (s, calls) =
           (Inl (InvalidSenderAccount (toBase58 (owner info))),
            (s', calls @ [GetAccountInfo (publicKey kp)]))
         \<and> validateForTransactions conn \<lparr>keypair = kp\<rparr> (s, calls) =
           (Inl (NotSystemAccount (toBase58 (owner info))),
            (s', calls @ [GetAccountInfo (publicKey kp)]))"
  using assms
  by (simp add: sendSOL_def validateForTransactions_def io_defs invalid_sender_def Let_def)

text \<open>An account owned by the token program, with funds enough for the transfer.\<close>

theorem sendSOL_non_system_owner_witness:
  "sendSOL sample_lib
     (sample_connection
        (Inr (Some \<lparr>owner = PublicKey ''TokenkegQfeZyiNwAJbNbGKPFXCWuBvf9Ss623VQ5DA'',
                    account_lamports = Finite 2039280\<rparr>))
        (\<lambda>t. Finite 1000000000) (Some (Finite 5000)) (Inr ''signature'') None)
     rfc8032_keypair recipient (Finite (1 / 2)) (0, []) =
   (Inl (InvalidSenderAccount ''TokenkegQfeZyiNwAJbNbGKPFXCWuBvf9Ss623VQ5DA''),
    (1, [GetAccountInfo (publicKey rfc8032_keypair)]))"
proof -
  let ?info = "\<lparr>owner = PublicKey ''TokenkegQfeZyiNwAJbNbGKPFXCWuBvf9Ss623VQ5DA'',
                 account_lamports = Finite 2039280\<rparr>"
  let ?conn = "sample_connection (Inr (Some ?info)) (\<lambda>t. Finite 1000000000)
                 (Some (Finite 5000)) (Inr ''signature'') None"
  have q: "getAccountInfo ?conn (publicKey rfc8032_keypair) 0 = (Inr (Some ?info), 1)"
    by (simp add: sample_connection_def)
  have o: "toBase58 (owner ?info) \<noteq> SYSTEM_PROGRAM_ID"
    by (simp add: SYSTEM_PROGRAM_ID_def)
  from sendSOL_non_system_owner [OF q o, of sample_lib recipient "Finite (1 / 2)" "[]"]
  show ?thesis by simp
qed

text \<open>
  Claim C7. When the account query returns no account, \<^verbatim>\<open>validateForTransactions\<close> returns
  without an error after that one query, the sender check of \<^verbatim>\<open>sendSOL\<close> raises nothing,
  and \<^verbatim>\<open>sendSOL\<close> goes on to query the balance.
\<close>

theorem absent_account_usable:
  assumes "getAccountInfo conn (publicKey (keypair w)) s = (Inr None, s')"
  shows "validateForTransactions conn w (s, calls) =
           (Inr (), (s', calls @ [GetAccountInfo (publicKey (keypair w))]))
         \<and> invalid_sender None = None
         \<and> (\<exists>r s'' rest. sendSOL lib conn (keypair w) dest amountSOL (s, calls) =
              (r, (s'', calls @ GetAccountInfo (publicKey (keypair w)) #
                         GetBalance (publicKey (keypair w)) # rest)))"
  using assms
  by (auto simp: sendSOL_def estimateTransactionFee_def validateForTransactions_def io_defs
        invalid_sender_def Let_def on_send_error_def
      split: sum.splits prod.splits error.splits)

text \<open>A key that was never funded: the network knows no account for it.\<close>

theorem absent_account_usable_witness:
  "validateForTransactions
     (sample_connection (Inr None) (\<lambda>t. Finite 0) (Some (Finite 5000)) (Inr ''signature'') None)
     \<lparr>keypair = rfc8032_keypair\<rparr> (0, []) =
   (Inr (), (1, [GetAccountInfo (publicKey rfc8032_keypair)]))"
proof -
  let ?conn = "sample_connection (Inr None) (\<lambda>t. Finite 0) (Some (Finite 5000))
                 (Inr ''signature'') None"
  have q: "getAccountInfo ?conn (publicKey (keypair \<lparr>keypair = rfc8032_keypair\<rparr>)) 0 =
           (Inr None, 1)"
    by (simp add: sample_connection_def)
  from absent_account_usable [OF q, of "[]" sample_lib recipient "Finite 1"]
  show ?thesis by simp
qed

section \<open>Whether an address exists\<close>

text \<open>
  Claim C10. \<^verbatim>\<open>checkAddressExists\<close> always returns a boolean, after one account query: false
  when the query raises, false when it returns no account, true when it returns one.
\<close>

theorem checkAddressExists_total:
  "checkAddressExists conn pk (s, calls) =
     (Inr (case fst (getAccountInfo conn pk s) of
             Inl err \<Rightarrow> False
           | Inr None \<Rightarrow> False
           | Inr (Some info) \<Rightarrow> True),
      (snd (getAccountInfo conn pk s), calls @ [GetAccountInfo pk]))"
  by (auto simp: checkAddressExists_def io_defs split: sum.splits prod.splits option.splits)

text \<open>A network that cannot be reached.\<close>

theorem checkAddressExists_total_witness:
  "checkAddressExists
     (sample_connection (Inl (LibraryError ''fetch failed'')) (\<lambda>t. Finite 0) None
        (Inr ''signature'') None)
     recipient (0, []) =
   (Inr False, (1, [GetAccountInfo recipient]))"
  using checkAddressExists_total
    [of "sample_connection (Inl (LibraryError ''fetch failed'')) (\<lambda>t. Finite 0) None
           (Inr ''signature'') None" recipient 0 "[]"]
  by (simp add: sample_connection_def)

section \<open>Insufficient funds\<close>

text \<open>
  Claim C1, as amended. The sender check passes and the queries return. The balance is
  \<open>b\<close> lamports, the amount \<^verbatim>\<open>amountSOL * LAMPORTS_PER_SOL\<close> is \<open>l\<close> lamports and the fee
  that the network quotes is \<open>f\<close> lamports, whole numbers with \<open>0 \<le> l\<close>,
  \<open>0 \<le> f < 2 ^ 50\<close> and \<open>l + f < 2 ^ 53\<close>. If \<open>b < l + f\<close>, then \<^verbatim>\<open>sendSOL\<close> raises its
  insufficient-balance error, whose message gives the balance and the total in SOL with
  the amount and the fee in SOL, and no transaction has been submitted.
\<close>

theorem sendSOL_insufficient_balance:
  assumes acct: "getAccountInfo conn (publicKey kp) s = (Inr info, s_acct)"
      and ok: "invalid_sender info = None"
      and bal: "getBalance conn (publicKey kp) s_acct = (Inr (Finite (of_int b)), s_bal)"
      and lam: "number_multiply amountSOL LAMPORTS_PER_SOL = Finite (of_int l)"
      and instr: "SystemProgram_transfer lib (publicKey kp) dest (Finite (of_int l)) =
                    Inr instruction"
      and bh: "getLatestBlockhash conn s_bal = (Inr blockhash, s_bh)"
      and tx: "tx = (add_instruction new_Transaction instruction)
                      \<lparr>recentBlockhash := Some blockhash, feePayer := Some (publicKey kp)\<rparr>"
      and fee: "getFeeForMessage conn (compileMessage tx) ''confirmed'' s_bh =
                  (Inr (Some (Finite (of_int f))), s_fee)"
      and l0: "0 \<le> l" and f0: "0 \<le> f" and f50: "f < 2 ^ 50"
      and safe: "l + f < 2 ^ 53"
      and short: "b < l + f"
  shows "sendSOL lib conn kp dest amountSOL (s, calls) =
           (Inl (InsufficientBalance
                   (number_divide (Finite (of_int b)) LAMPORTS_PER_SOL)
                   (number_divide
                      (number_add (Finite (of_int l))
                         (number_multiply
                            (number_divide (Finite (of_int f)) LAMPORTS_PER_SOL)
                            LAMPORTS_PER_SOL))
                      LAMPORTS_PER_SOL)
                   amountSOL
                   (number_divide (Finite (of_int f)) LAMPORTS_PER_SOL)),
            (s_fee, calls @ [GetAccountInfo (publicKey kp), GetBalance (publicKey kp),
                             GetLatestBlockhash, GetFeeForMessage (compileMessage tx)]))
         \<and> filter is_submission
               (calls @ [GetAccountInfo (publicKey kp), GetBalance (publicKey kp),
                         GetLatestBlockhash, GetFeeForMessage (compileMessage tx)]) =
             filter is_submission calls"
proof -
  let ?fee = "number_divide (Finite (of_int f)) LAMPORTS_PER_SOL"
  have est: "estimateTransactionFee lib conn (publicKey kp) dest amountSOL
               (s_bal, calls @ [GetAccountInfo (publicKey kp), GetBalance (publicKey kp)]) =
             (Inr ?fee,
              (s_fee, calls @ [GetAccountInfo (publicKey kp), GetBalance (publicKey kp),
                               GetLatestBlockhash, GetFeeForMessage (compileMessage tx)]))"
    using lam instr bh fee tx [symmetric]
    by (simp add: estimateTransactionFee_def io_defs Let_def fee_in_SOL
        del: ToBoolean.simps)
  have less: "number_lessThan (Finite (of_int b))
                (number_add (Finite (of_int l)) (number_multiply ?fee LAMPORTS_PER_SOL))"
    using l0 f0 f50 safe short by (rule short_balance_test)
  have run: "sendSOL lib conn kp dest amountSOL (s, calls) =
           (Inl (InsufficientBalance
                   (number_divide (Finite (of_int b)) LAMPORTS_PER_SOL)
                   (number_divide
                      (number_add (Finite (of_int l)) (number_multiply ?fee LAMPORTS_PER_SOL))
                      LAMPORTS_PER_SOL)
                   amountSOL ?fee),
            (s_fee, calls @ [GetAccountInfo (publicKey kp), GetBalance (publicKey kp),
                             GetLatestBlockhash, GetFeeForMessage (compileMessage tx)]))"
    using acct ok bal est less lam
    by (simp add: sendSOL_def bind_io_def await_def throw_io_def Let_def)
  have none: "filter is_submission
               (calls @ [GetAccountInfo (publicKey kp), GetBalance (publicKey kp),
                         GetLatestBlockhash, GetFeeForMessage (compileMessage tx)]) =
             filter is_submission calls"
    by (simp add: is_submission_def)
  from run none show ?thesis by (rule conjI)
qed

text \<open>An unfunded sender, one SOL to send, a fee of 5000 lamports.\<close>

theorem sendSOL_insufficient_balance_witness:
  "sendSOL sample_lib
     (sample_connection (Inr None) (\<lambda>t. Finite 0) (Some (Finite 5000)) (Inr ''signature'') None)
     rfc8032_keypair recipient (Finite 1) (0, []) =
   (Inl (InsufficientBalance
           (number_divide (Finite 0) LAMPORTS_PER_SOL)
           (number_divide
              (number_add (Finite 1000000000)
                 (number_multiply (number_divide (Finite 5000) LAMPORTS_PER_SOL)
                    LAMPORTS_PER_SOL))
              LAMPORTS_PER_SOL)
           (Finite 1) (number_divide (Finite 5000) LAMPORTS_PER_SOL)),
    (4, [GetAccountInfo (publicKey rfc8032_keypair), GetBalance (publicKey rfc8032_keypair),
         GetLatestBlockhash,
         GetFeeForMessage (Message (sample_transaction (Finite 1000000000)))]))
   \<and> filter is_submission
        [GetAccountInfo (publicKey rfc8032_keypair), GetBalance (publicKey rfc8032_keypair),
         GetLatestBlockhash,
         GetFeeForMessage (Message (sample_transaction (Finite 1000000000)))] = []"
proof -
  let ?conn = "sample_connection (Inr None) (\<lambda>t. Finite 0) (Some (Finite 5000))
                 (Inr ''signature'') None"
  let ?pk = "publicKey rfc8032_keypair"
  let ?instr = "\<lparr>fromPubkey = ?pk, toPubkey = recipient,
                  transfer_lamports = Finite 1000000000\<rparr>"
  have acct: "getAccountInfo ?conn ?pk 0 = (Inr None, 1)"
    by (simp add: sample_connection_def)
  have ok: "invalid_sender None = None"
    by (simp add: invalid_sender_def)
  have bal: "getBalance ?conn ?pk 1 = (Inr (Finite (of_int 0)), 2)"
    by (simp add: sample_connection_def)
  have lam: "number_multiply (Finite 1) LAMPORTS_PER_SOL = Finite (of_int 1000000000)"
    by code_simp
  have instr: "SystemProgram_transfer sample_lib ?pk recipient (Finite (of_int 1000000000)) =
                 Inr ?instr"
    by code_simp
  have bh: "getLatestBlockhash ?conn 2 = (Inr ''blockhash'', 3)"
    by (simp add: sample_connection_def)
  have tx: "sample_transaction (Finite 1000000000) =
              (add_instruction new_Transaction ?instr)
                \<lparr>recentBlockhash := Some ''blockhash'', feePayer := Some ?pk\<rparr>"
    by (simp add: sample_transaction_def add_instruction_def new_Transaction_def)
  have fee: "getFeeForMessage ?conn (compileMessage (sample_transaction (Finite 1000000000)))
               ''confirmed'' 3 = (Inr (Some (Finite (of_int 5000))), 4)"
    by (simp add: sample_connection_def)
  have l0: "(0::int) \<le> 1000000000" and f0: "(0::int) \<le> 5000"
    and f50: "(5000::int) < 2 ^ 50" and safe: "(1000000000::int) + 5000 < 2 ^ 53"
    and short: "(0::int) < 1000000000 + 5000"
    by simp_all
  from sendSOL_insufficient_balance
         [OF acct ok bal lam instr bh tx fee l0 f0 f50 safe short, of "[]"]
  show ?thesis by (simp add: compileMessage_def)
qed

text \<open>
  The claim as it was stated fails in three ways. With a balance of one SOL, two SOL to
  send and a fee of 5000 lamports, the shortfall is 1000005000 lamports, and the error
  holds the numbers 1, 2.000005, 2 and 0.000005. With a balance of \<open>10 ^ 16\<close> lamports,
  \<open>10 ^ 7\<close> SOL to send, which is \<open>10 ^ 16\<close> lamports, and a fee of one lamport, the balance
  is one lamport short, the total rounds to \<open>10 ^ 16\<close> and the transfer is submitted. With
  nothing to send, a fee of 8518427615277999 lamports and a balance of one lamport less,
  the fee comes back from SOL as 8518427615277998 lamports and the transfer is submitted.
\<close>

theorem sendSOL_shortfall_and_rounding:
  "fst (sendSOL sample_lib
          (sample_connection (Inr None) (\<lambda>t. Finite 1000000000) (Some (Finite 5000))
             (Inr ''signature'') None)
          rfc8032_keypair recipient (Finite 2) (0, [])) =
   Inl (InsufficientBalance (Finite 1) (to_double (2000005 / 1000000))
          (Finite 2) (to_double (5 / 1000000)))
   \<and> Finite 1000005000 \<notin>
       set (interpolated_numbers
              (InsufficientBalance (Finite 1) (to_double (2000005 / 1000000))
                 (Finite 2) (to_double (5 / 1000000))))
   \<and> number_multiply (Finite 10000000) LAMPORTS_PER_SOL = Finite 10000000000000000
   \<and> (10000000000000000::int) < 10000000000000000 + 1
   \<and> fst (sendSOL sample_lib
            (sample_connection (Inr None) (\<lambda>t. Finite 10000000000000000) (Some (Finite 1))
               (Inr ''signature'') None)
            rfc8032_keypair recipient (Finite 10000000) (0, [])) =
       Inr ''signature''
   \<and> number_multiply (Finite 0) LAMPORTS_PER_SOL = Finite 0
   \<and> (8518427615277998::int) < 0 + 8518427615277999
   \<and> fst (sendSOL sample_lib
            (sample_connection (Inr None) (\<lambda>t. Finite 8518427615277998)
               (Some (Finite 8518427615277999)) (Inr ''signature'') None)
            rfc8032_keypair recipient (Finite 0) (0, [])) =
       Inr ''signature''"
  by code_simp

section \<open>The arithmetic of the balance check\<close>

text \<open>
  Claim C2, as amended. The arithmetic is binary64 arithmetic on amounts in SOL scaled by
  \<^verbatim>\<open>LAMPORTS_PER_SOL\<close>: the amount is multiplied by it, the fee is divided by it and
  multiplied by it again, and the sum is compared with the balance. At the values of the
  example it is exact: with a balance of 1000000000 lamports, half a SOL to send and a
  fee of 5000 lamports the total is 500005000 and the transfer is submitted; with a balance
  of 400000000 lamports \<^verbatim>\<open>sendSOL\<close> raises its insufficient-balance error, which gives
  0.4 SOL held and 0.500005 SOL needed.
\<close>

theorem sendSOL_spec_example:
  "number_add (number_multiply (Finite (1 / 2)) LAMPORTS_PER_SOL)
     (number_multiply (number_divide (Finite 5000) LAMPORTS_PER_SOL) LAMPORTS_PER_SOL) =
   Finite 500005000
   \<and> fst (sendSOL sample_lib
        (sample_connection (Inr None) (\<lambda>t. Finite 1000000000) (Some (Finite 5000))
           (Inr ''signature'') None)
        rfc8032_keypair recipient (Finite (1 / 2)) (0, [])) = Inr ''signature''
   \<and> fst (sendSOL sample_lib
        (sample_connection (Inr None) (\<lambda>t. Finite 400000000) (Some (Finite 5000))
           (Inr ''signature'') None)
        rfc8032_keypair recipient (Finite (1 / 2)) (0, [])) =
     Inl (InsufficientBalance (to_double (4 / 10)) (to_double (500005 / 1000000))
            (Finite (1 / 2)) (to_double (5 / 1000000)))"
  by code_simp

text \<open>
  The claim as it was stated fails: the amount 0.000000001 SOL is one lamport exactly, the
  fee is 7632 lamports and the balance is 7633 lamports, their sum. The fee divided by
  \<^verbatim>\<open>LAMPORTS_PER_SOL\<close> and multiplied by it again is \<open>7632 + 2 ^ - 40\<close>; the total exceeds the
  balance and the transfer is refused.
\<close>

theorem sendSOL_refuses_exact_balance:
  "number_multiply (to_double (1 / 1000000000)) LAMPORTS_PER_SOL = Finite 1
   \<and> number_multiply (number_divide (Finite 7632) LAMPORTS_PER_SOL) LAMPORTS_PER_SOL =
     Finite (7632 + 1 / 2 ^ 40)
   \<and> fst (sendSOL sample_lib
        (sample_connection (Inr None) (\<lambda>t. Finite 7633) (Some (Finite 7632))
           (Inr ''signature'') None)
        rfc8032_keypair recipient (to_double (1 / 1000000000)) (0, [])) =
     Inl (InsufficientBalance
            (number_divide (Finite 7633) LAMPORTS_PER_SOL)
            (number_divide (Finite (7633 + 1 / 2 ^ 40)) LAMPORTS_PER_SOL)
            (to_double (1 / 1000000000))
            (number_divide (Finite 7632) LAMPORTS_PER_SOL))"
  by code_simp

section \<open>Rejected submissions\<close>

text \<open>
  Claim C5: when the network refuses a submitted transfer, \<^verbatim>\<open>sendSOL\<close> puts the log lines
  of the refusal, as they are, in the error it raises, and never swallows them. The code
  does so where \<^verbatim>\<open>getLogs\<close> returns and not where it raises. A transfer that the network
  refuses with two lines of log: \<^verbatim>\<open>sendSOL\<close> raises an error whose message is
  "Transaction failed: ", the library's message, a line break, "Logs: " and the two lines
  as they are. The same transfer when \<^verbatim>\<open>getLogs\<close> raises: line 104 awaits it inside the
  handler with nothing around it, so \<^verbatim>\<open>sendSOL\<close> raises the error of \<^verbatim>\<open>getLogs\<close>, and the
  message of the refusal is lost with whatever it said of the logs.
\<close>

theorem sendSOL_loses_rejection:
  "fst (sendSOL sample_lib
          (sample_connection (Inr None) (\<lambda>t. Finite 1000000000) (Some (Finite 5000))
             (Inl (SendTransactionError ''Simulation failed'' ''signature''))
             (Some [''Program 11111111111111111111111111111111 invoke [1]'',
                    ''Program 11111111111111111111111111111111 failed: custom program error: 0x1'']))
          rfc8032_keypair recipient (Finite (1 / 2)) (0, [])) =
   Inl (TransactionFailed
          (''Transaction failed: Simulation failed'' @ newline @
           ''Logs: Program 11111111111111111111111111111111 invoke [1]'' @ newline @
           ''Program 11111111111111111111111111111111 failed: custom program error: 0x1''))
   \<and> fst (sendSOL sample_lib
            (logs_not_found
               (sample_connection (Inr None) (\<lambda>t. Finite 1000000000) (Some (Finite 5000))
                  (Inl (SendTransactionError ''Simulation failed'' ''signature'')) None))
            rfc8032_keypair recipient (Finite (1 / 2)) (0, [])) =
       Inl (LibraryError ''Log messages not found'')"
  by code_simp

section \<open>The order of the steps\<close>

text \<open>
  Claim C6, as amended. A transfer that goes through makes its calls in this order: the
  account query, the balance query, the blockhash query and the fee query of the estimate,
  the comparison of the balance with the total, a second blockhash query, and the one call
  that signs, submits and confirms. The balance is queried once, before the fee estimate,
  and the value compared is the one that query returned.
\<close>

theorem sendSOL_call_order:
  assumes acct: "getAccountInfo conn (publicKey kp) s = (Inr info, s_acct)"
      and ok: "invalid_sender info = None"
      and bal: "getBalance conn (publicKey kp) s_acct = (Inr senderBalance, s_bal)"
      and instr: "SystemProgram_transfer lib (publicKey kp) dest
                    (number_multiply amountSOL LAMPORTS_PER_SOL) = Inr instruction"
      and bh_est: "getLatestBlockhash conn s_bal = (Inr blockhash_est, s_bh_est)"
      and tx_est: "tx_est = (add_instruction new_Transaction instruction)
                      \<lparr>recentBlockhash := Some blockhash_est, feePayer := Some (publicKey kp)\<rparr>"
      and fee: "getFeeForMessage conn (compileMessage tx_est) ''confirmed'' s_bh_est =
                  (Inr fee_value, s_fee)"
      and est: "estimatedFee = (case fee_value of None \<Rightarrow> Finite 0
                  | Some v \<Rightarrow> if ToBoolean v then number_divide v LAMPORTS_PER_SOL else Finite 0)"
      and enough: "\<not> number_lessThan senderBalance
                   (number_add (number_multiply amountSOL LAMPORTS_PER_SOL)
                      (number_multiply estimatedFee LAMPORTS_PER_SOL))"
      and bh: "getLatestBlockhash conn s_fee = (Inr blockhash, s_bh)"
      and tx: "tx = (add_instruction new_Transaction instruction)
                      \<lparr>recentBlockhash := Some blockhash, feePayer := Some (publicKey kp)\<rparr>"
      and sent: "sendAndConfirmTransaction conn tx [kp] confirm_options s_bh =
                   (Inr signature, s_sent)"
  shows "sendSOL lib conn kp dest amountSOL (s, calls) =
           (Inr signature,
            (s_sent, calls @ [GetAccountInfo (publicKey kp), GetBalance (publicKey kp),
                              GetLatestBlockhash, GetFeeForMessage (compileMessage tx_est),
                              GetLatestBlockhash,
                              SendAndConfirmTransaction tx [kp] confirm_options]))"
  using assms
  by (simp add: sendSOL_def estimateTransactionFee_def io_defs Let_def)

text \<open>Half a SOL from an account that holds one SOL.\<close>

theorem sendSOL_call_order_witness:
  "sendSOL sample_lib
     (sample_connection (Inr None) (\<lambda>t. Finite 1000000000) (Some (Finite 5000))
        (Inr ''signature'') None)
     rfc8032_keypair recipient (Finite (1 / 2)) (0, []) =
   (Inr ''signature'',
    (6, [GetAccountInfo (publicKey rfc8032_keypair), GetBalance (publicKey rfc8032_keypair),
         GetLatestBlockhash,
         GetFeeForMessage (compileMessage (sample_transaction (Finite 500000000))),
         GetLatestBlockhash,
         SendAndConfirmTransaction (sample_transaction (Finite 500000000)) [rfc8032_keypair]
           confirm_options]))"
proof -
  let ?conn = "sample_connection (Inr None) (\<lambda>t. Finite 1000000000) (Some (Finite 5000))
                 (Inr ''signature'') None"
  let ?pk = "publicKey rfc8032_keypair"
  let ?instr = "\<lparr>fromPubkey = ?pk, toPubkey = recipient,
                  transfer_lamports = Finite 500000000\<rparr>"
  have acct: "getAccountInfo ?conn ?pk 0 = (Inr None, 1)"
    by (simp add: sample_connection_def)
  have ok: "invalid_sender None = None"
    by (simp add: invalid_sender_def)
  have bal: "getBalance ?conn ?pk 1 = (Inr (Finite 1000000000), 2)"
    by (simp add: sample_connection_def)
  have instr: "SystemProgram_transfer sample_lib ?pk recipient
                 (number_multiply (Finite (1 / 2)) LAMPORTS_PER_SOL) = Inr ?instr"
    by code_simp
  have bh_est: "getLatestBlockhash ?conn 2 = (Inr ''blockhash'', 3)"
    by (simp add: sample_connection_def)
  have tx: "sample_transaction (Finite 500000000) =
              (add_instruction new_Transaction ?instr)
                \<lparr>recentBlockhash := Some ''blockhash'', feePayer := Some ?pk\<rparr>"
    by (simp add: sample_transaction_def add_instruction_def new_Transaction_def)
  have fee: "getFeeForMessage ?conn (compileMessage (sample_transaction (Finite 500000000)))
               ''confirmed'' 3 = (Inr (Some (Finite 5000)), 4)"
    by (simp add: sample_connection_def)
  have est: "number_divide (Finite 5000) LAMPORTS_PER_SOL =
             (case Some (Finite 5000) of None \<Rightarrow> Finite 0
              | Some v \<Rightarrow> if ToBoolean v then number_divide v LAMPORTS_PER_SOL else Finite 0)"
    by simp
  have enough: "\<not> number_lessThan (Finite 1000000000)
                (number_add (number_multiply (Finite (1 / 2)) LAMPORTS_PER_SOL)
                   (number_multiply (number_divide (Finite 5000) LAMPORTS_PER_SOL)
                      LAMPORTS_PER_SOL))"
    by code_simp
  have bh: "getLatestBlockhash ?conn 4 = (Inr ''blockhash'', 5)"
    by (simp add: sample_connection_def)
  have sent: "sendAndConfirmTransaction ?conn (sample_transaction (Finite 500000000))
                [rfc8032_keypair] confirm_options 5 = (Inr ''signature'', 6)"
    by (simp add: sample_connection_def)
  from sendSOL_call_order [OF acct ok bal instr bh_est tx fee est enough bh tx sent]
  show ?thesis by simp
qed

text \<open>
  The claim as it was stated fails: on a network where the balance is one SOL until the
  balance query has been answered and nothing afterwards, the transfer of half a SOL is
  submitted. The call before the submission is a blockhash query, the balance query is the
  second call, and a balance query in the state the submission starts from returns 0.
\<close>

theorem sendSOL_balance_queried_before_estimate:
  "sendSOL sample_lib
     (sample_connection (Inr None) (\<lambda>t. if t \<le> 1 then Finite 1000000000 else Finite 0)
        (Some (Finite 5000)) (Inr ''signature'') None)
     rfc8032_keypair recipient (Finite (1 / 2)) (0, []) =
   (Inr ''signature'',
    (6, [GetAccountInfo (publicKey rfc8032_keypair), GetBalance (publicKey rfc8032_keypair),
         GetLatestBlockhash,
         GetFeeForMessage (Message (sample_transaction (Finite 500000000))),
         GetLatestBlockhash,
         SendAndConfirmTransaction (sample_transaction (Finite 500000000)) [rfc8032_keypair]
           confirm_options]))
   \<and> fst (getBalance
        (sample_connection (Inr None) (\<lambda>t. if t \<le> 1 then Finite 1000000000 else Finite 0)
           (Some (Finite 5000)) (Inr ''signature'') None)
        (publicKey rfc8032_keypair) 5) = Inr (Finite 0)"
  by code_simp

section \<open>A fee that is not available\<close>



section \<open>Reading a private key\<close>

text \<open>
  Claim C3, as amended. The constructor of \<^verbatim>\<open>WalletManager\<close> tries base-58 first and the
  JSON array second. It raises its invalid-format error exactly when the text neither
  decodes as base-58 to 64 bytes that \<^verbatim>\<open>Keypair.fromSecretKey\<close> accepts, nor parses as a
  JSON array of 64 elements whose conversion to bytes \<^verbatim>\<open>Keypair.fromSecretKey\<close> accepts;
  it raises no other error, and \<^verbatim>\<open>isValidPrivateKey\<close> turns the error into false.
\<close>

theorem constructor_invalid_key_format:
  "(WalletManager_constructor lib s = Inl InvalidPrivateKeyFormat) =
     ((\<forall>bs kp. bs58_decode lib s = Inr bs \<and> length bs = 64 \<longrightarrow>
          Keypair_fromSecretKey lib bs \<noteq> Inr kp) \<and>
      (\<forall>xs kp. JSON_parse lib s = Inr (JArray xs) \<and> length xs = 64 \<longrightarrow>
          Keypair_fromSecretKey lib (new_Uint8Array lib xs) \<noteq> Inr kp))
   \<and> (\<forall>err. WalletManager_constructor lib s = Inl err \<longrightarrow> err = InvalidPrivateKeyFormat)
   \<and> (\<forall>bs kp. bs58_decode lib s = Inr bs \<and> length bs = 64 \<and>
          Keypair_fromSecretKey lib bs = Inr kp \<longrightarrow>
          WalletManager_constructor lib s = Inr \<lparr>keypair = kp\<rparr>)
   \<and> isValidPrivateKey lib s = (WalletManager_constructor lib s \<noteq> Inl InvalidPrivateKeyFormat)"
proof -
  have b58: "(\<exists>kp. key_from_base58 lib s = Inr kp) =
             (\<exists>bs kp. bs58_decode lib s = Inr bs \<and> length bs = 64 \<and>
                Keypair_fromSecretKey lib bs = Inr kp)"
    by (auto simp: key_from_base58_def split: sum.splits if_splits)
  have json: "(\<exists>kp. key_from_json lib s = Inr kp) =
              (\<exists>xs kp. JSON_parse lib s = Inr (JArray xs) \<and> length xs = 64 \<and>
                 Keypair_fromSecretKey lib (new_Uint8Array lib xs) = Inr kp)"
    by (auto simp: key_from_json_def split: sum.splits if_splits json.splits)
  have fail: "(WalletManager_constructor lib s = Inl InvalidPrivateKeyFormat) =
              (\<not> (\<exists>kp. key_from_base58 lib s = Inr kp) \<and> \<not> (\<exists>kp. key_from_json lib s = Inr kp))"
    by (auto simp: WalletManager_constructor_def split: sum.splits)
  have first: "WalletManager_constructor lib s = Inr \<lparr>keypair = kp\<rparr>"
    if "bs58_decode lib s = Inr bs" "length bs = 64" "Keypair_fromSecretKey lib bs = Inr kp"
    for bs kp
    using that by (simp add: WalletManager_constructor_def key_from_base58_def)
  have only: "err = InvalidPrivateKeyFormat" if "WalletManager_constructor lib s = Inl err" for err
    using that by (auto simp: WalletManager_constructor_def split: sum.splits)
  have valid: "isValidPrivateKey lib s =
               (WalletManager_constructor lib s \<noteq> Inl InvalidPrivateKeyFormat)"
    using only by (auto simp: isValidPrivateKey_def split: sum.splits)
  from fail b58 json first only valid show ?thesis
    by (simp only: not_ex de_Morgan_conj imp_conv_disj) blast
qed

text \<open>Base-58 text of three bytes, which is no JSON either.\<close>

theorem constructor_invalid_key_format_witness:
  "WalletManager_constructor sample_lib ''abc'' = Inl InvalidPrivateKeyFormat
   \<and> isValidPrivateKey sample_lib ''abc'' = False"
proof -
  have d: "bs58_decode sample_lib ''abc'' = Inr [1, 185, 123]"
    by code_simp
  have j: "JSON_parse sample_lib ''abc'' = Inl (LibraryError ''SyntaxError'')"
    by code_simp
  have h: "(\<forall>bs kp. bs58_decode sample_lib ''abc'' = Inr bs \<and> length bs = 64 \<longrightarrow>
              Keypair_fromSecretKey sample_lib bs \<noteq> Inr kp) \<and>
           (\<forall>xs kp. JSON_parse sample_lib ''abc'' = Inr (JArray xs) \<and> length xs = 64 \<longrightarrow>
              Keypair_fromSecretKey sample_lib (new_Uint8Array sample_lib xs) \<noteq> Inr kp)"
    by (simp add: d j)
  from constructor_invalid_key_format [of sample_lib "''abc''"] h
  show ?thesis by simp
qed

text \<open>
  The claim as it was stated fails: the array of the bytes of a valid key with one half
  added to each is no base-58 and no array of integers, and the constructor builds the
  wallet of that key from it.
\<close>

theorem constructor_accepts_fractions:
  "bs58_decode sample_lib rfc8032_halves_text = Inl (LibraryError ''Non-base58 character'')
   \<and> JSON_parse sample_lib rfc8032_halves_text =
       Inr (JArray (map (\<lambda>b. JNumber (Finite (of_int (uint b) + 1 / 2))) rfc8032_secret_key))
   \<and> list_all json_is_integer
        (map (\<lambda>b. JNumber (Finite (of_int (uint b) + 1 / 2))) rfc8032_secret_key) = False
   \<and> WalletManager_constructor sample_lib rfc8032_halves_text =
       Inr \<lparr>keypair = rfc8032_keypair\<rparr>"
  by code_simp

section \<open>Keys survive a round trip\<close>

text \<open>
  Claim C8. For a key of 64 bytes that \<^verbatim>\<open>Keypair.fromSecretKey\<close> accepts and keeps, with a
  base-58 that decodes what it encodes: the constructor applied to the base-58 text of the
  key gives the key pair of the key, \<^verbatim>\<open>getPrivateKey\<close> gives that text back, and so the
  wallet of \<^verbatim>\<open>createNew\<close> is read back from its own private key. The constructor applied
  to the JSON array of the bytes gives the same key pair, whose secret key is these bytes.
\<close>

theorem key_round_trip:
  assumes len: "length sk = 64"
      and kp: "Keypair_fromSecretKey lib sk = Inr kp"
      and kept: "secretKey kp = sk"
      and b58: "bs58_decode lib (bs58_encode lib sk) = Inr sk"
      and no_b58: "bs58_decode lib array_text = Inl err"
      and arr: "JSON_parse lib array_text =
                  Inr (JArray (map (\<lambda>b. JNumber (Finite (of_int (uint b)))) sk))"
  shows "WalletManager_constructor lib (bs58_encode lib sk) = Inr \<lparr>keypair = kp\<rparr>
         \<and> getPrivateKey lib \<lparr>keypair = kp\<rparr> = bs58_encode lib sk
         \<and> createNew lib kp = Inr \<lparr>keypair = kp\<rparr>
         \<and> WalletManager_constructor lib (getPrivateKey lib \<lparr>keypair = kp\<rparr>) =
             Inr \<lparr>keypair = kp\<rparr>
         \<and> WalletManager_constructor lib array_text = Inr \<lparr>keypair = kp\<rparr>
         \<and> secretKey (keypair \<lparr>keypair = kp\<rparr>) = sk"
proof -
  have from_text: "WalletManager_constructor lib (bs58_encode lib sk) = Inr \<lparr>keypair = kp\<rparr>"
    using len kp b58 by (simp add: WalletManager_constructor_def key_from_base58_def)
  have from_array: "WalletManager_constructor lib array_text = Inr \<lparr>keypair = kp\<rparr>"
    using len kp no_b58 arr
    by (simp add: WalletManager_constructor_def key_from_base58_def key_from_json_def
        new_Uint8Array_bytes [simplified])
  from from_text from_array kept show ?thesis
    by (simp add: getPrivateKey_def createNew_def)
qed

text \<open>The key of RFC 8032 with the reference base-58.\<close>

theorem key_round_trip_witness:
  "WalletManager_constructor sample_lib (bs58_encode sample_lib rfc8032_secret_key) =
     Inr \<lparr>keypair = rfc8032_keypair\<rparr>
   \<and> getPrivateKey sample_lib \<lparr>keypair = rfc8032_keypair\<rparr> =
       bs58_encode sample_lib rfc8032_secret_key
   \<and> createNew sample_lib rfc8032_keypair = Inr \<lparr>keypair = rfc8032_keypair\<rparr>
   \<and> WalletManager_constructor sample_lib rfc8032_array_text =
       Inr \<lparr>keypair = rfc8032_keypair\<rparr>"
proof -
  have len: "length rfc8032_secret_key = 64"
    by (simp add: rfc8032_secret_key_def)
  have kp: "Keypair_fromSecretKey sample_lib rfc8032_secret_key = Inr rfc8032_keypair"
    by (simp add: sample_lib_def)
  have kept: "secretKey rfc8032_keypair = rfc8032_secret_key"
    by (simp add: rfc8032_keypair_def)
  have b58: "bs58_decode sample_lib (bs58_encode sample_lib rfc8032_secret_key) =
             Inr rfc8032_secret_key"
    by (simp add: sample_lib_def bs58_ref_round_trip)
  have no_b58: "bs58_decode sample_lib rfc8032_array_text =
                Inl (LibraryError ''Non-base58 character'')"
    by code_simp
  have arr: "JSON_parse sample_lib rfc8032_array_text =
               Inr (JArray (map (\<lambda>b. JNumber (Finite (of_int (uint b)))) rfc8032_secret_key))"
    by (simp add: sample_lib_def sample_JSON_parse_def)
  from key_round_trip [OF len kp kept b58 no_b58 arr]
  show ?thesis by simp
qed

end
